theory Spec2Isabelle
  imports Main
begin

section \<open>JavaScript values the guards depend on\<close>

text \<open>
  \<open>String.prototype.split\<close> with a one-character separator: the separator never
  appears in a segment, and a string with \<open>n\<close> separators has \<open>n + 1\<close> segments
  (so \<open>'Bearer '.split(' ')\<close> is \<open>['Bearer', '']\<close>).
\<close>

fun split :: "char \<Rightarrow> string \<Rightarrow> string list" where
  "split sep [] = [[]]"
| "split sep (c # cs) =
     (if c = sep then [] # split sep cs
      else (case split sep cs of
              [] \<Rightarrow> [[c]]
            | w # ws \<Rightarrow> (c # w) # ws))"

text \<open>\<open>Array.prototype.join\<close> on an array of strings.\<close>

fun join :: "string \<Rightarrow> string list \<Rightarrow> string" where
  "join sep [] = []"
| "join sep [x] = x"
| "join sep (x # y # ys) = x @ sep @ join sep (y # ys)"

text \<open>
  Array destructuring \<open>const [type, token] = xs\<close>: a position beyond the end of the
  array is \<open>undefined\<close>.
\<close>

definition at_index :: "'a list \<Rightarrow> nat \<Rightarrow> 'a option" where
  "at_index xs i = (if i < length xs then Some (xs ! i) else None)"

text \<open>Decimal rendering of a non-negative integer, as a template literal prints it.\<close>

fun show_nat :: "nat \<Rightarrow> string" where
  "show_nat n =
     (if n < 10 then [''0123456789'' ! n]
      else show_nat (n div 10) @ [''0123456789'' ! (n mod 10)])"

declare show_nat.simps [simp del]

text \<open>
  Property lookup \<open>obj[key]\<close> on an object literal: an own property wins, and a key
  that the literal does not define is looked up on \<open>Object.prototype\<close>, whose members
  (functions, and the prototype object itself for \<open>__proto__\<close>) are all truthy.
\<close>

definition Object_prototype_keys :: "string list" where
  "Object_prototype_keys =
     [''constructor'', ''__defineGetter__'', ''__defineSetter__'', ''hasOwnProperty'',
      ''__lookupGetter__'', ''__lookupSetter__'', ''isPrototypeOf'',
      ''propertyIsEnumerable'', ''toString'', ''valueOf'', ''__proto__'',
      ''toLocaleString'']"

datatype 'a property = Own 'a | Inherited string | Undefined

definition object_get :: "(string \<times> 'a) list \<Rightarrow> string \<Rightarrow> 'a property" where
  "object_get obj key =
     (case map_of obj key of
        Some v \<Rightarrow> Own v
      | None \<Rightarrow> if key \<in> set Object_prototype_keys then Inherited key else Undefined)"

section \<open>Exceptions, requests and route metadata\<close>

datatype HttpException =
    UnauthorizedException string
  | ForbiddenException string

fun getStatus :: "HttpException \<Rightarrow> nat" where
  "getStatus (UnauthorizedException m) = 401"
| "getStatus (ForbiddenException m) = 403"

fun message :: "HttpException \<Rightarrow> string" where
  "message (UnauthorizedException m) = m"
| "message (ForbiddenException m) = m"

text \<open>
  The object found in \<open>request.user\<close>, a token record or a directory entry. The guards
  read it untyped, so every field may be absent (\<open>None\<close> is \<open>undefined\<close>).
\<close>

record user_object =
  user_id :: "string option"
  username :: "string option"
  email :: "string option"
  password :: "string option"
  role :: "string option"
  roles :: "string list option"
  permissions :: "string list option"

definition empty_object :: user_object where
  "empty_object =
     \<lparr>user_id = None, username = None, email = None, password = None, role = None,
      roles = None, permissions = None\<rparr>"

record request =
  authorization :: "string option"
  user :: "user_object option"

text \<open>
  The metadata a decorator attaches to a handler or to a controller class, one field
  per metadata key: \<open>IS_PUBLIC_KEY\<close>, \<open>ROLES_KEY\<close>, \<open>PERMISSIONS_KEY\<close> and
  \<open>MODULE_PERMISSIONS_KEY\<close>.
\<close>

record metadata =
  IS_PUBLIC_KEY :: "bool option"
  ROLES_KEY :: "string list option"
  PERMISSIONS_KEY :: "string list option"
  MODULE_PERMISSIONS_KEY :: "string list option"

definition no_metadata :: metadata where
  "no_metadata =
     \<lparr>IS_PUBLIC_KEY = None, ROLES_KEY = None, PERMISSIONS_KEY = None,
      MODULE_PERMISSIONS_KEY = None\<rparr>"

record ExecutionContext =
  getHandler :: metadata
  getClass :: metadata

text \<open>
  \<open>Reflector.getAllAndOverride(key, targets)\<close>: the value of the first target that
  defines the key, \<open>undefined\<close> when none does.
\<close>

fun getAllAndOverride :: "(metadata \<Rightarrow> 'a option) \<Rightarrow> metadata list \<Rightarrow> 'a option" where
  "getAllAndOverride key [] = None"
| "getAllAndOverride key (t # ts) =
     (case key t of Some v \<Rightarrow> Some v | None \<Rightarrow> getAllAndOverride key ts)"

type_synonym guard = "ExecutionContext \<Rightarrow> request \<Rightarrow> HttpException + (bool \<times> request)"

section \<open>Authentication guard\<close>

definition extractTokenFromHeader :: "request \<Rightarrow> string option" where
  "extractTokenFromHeader req =
     (case authorization req of
        None \<Rightarrow> None
      | Some authHeader \<Rightarrow>
          if authHeader = [] then None
          else (let parts = split CHR '' '' authHeader;
                    type = at_index parts 0;
                    token = at_index parts 1
                in if type = Some ''Bearer'' then token else None))"

text \<open>
  The three \<open>AuthGuard\<close> classes differ only in their private \<open>validateToken\<close>, which
  is the parameter \<open>validateToken\<close> here (\<open>None\<close> is its \<open>null\<close>). The body of the
  \<open>try\<close> block is a function of its own: whatever it throws, the \<open>catch\<close> clause of
  \<open>canActivate\<close> replaces by its own exception.
\<close>

definition AuthGuard_try :: "(string \<Rightarrow> user_object option) \<Rightarrow> string \<Rightarrow> request
    \<Rightarrow> HttpException + (bool \<times> request)" where
  "AuthGuard_try validateToken token req =
     (case validateToken token of
        None \<Rightarrow> Inl (UnauthorizedException ''Invalid authentication token'')
      | Some u \<Rightarrow> Inr (True, req\<lparr>user := Some u\<rparr>))"

definition AuthGuard_canActivate :: "(string \<Rightarrow> user_object option) \<Rightarrow> guard" where
  "AuthGuard_canActivate validateToken context req =
     (let isPublic = getAllAndOverride IS_PUBLIC_KEY [getHandler context, getClass context] in
      if isPublic = Some True then Inr (True, req)
      else (case extractTokenFromHeader req of
              None \<Rightarrow> Inl (UnauthorizedException ''Authentication token not found'')
            | Some token \<Rightarrow>
                if token = [] then Inl (UnauthorizedException ''Authentication token not found'')
                else (case AuthGuard_try validateToken token req of
                        Inl error \<Rightarrow> Inl (UnauthorizedException ''Token validation failed'')
                      | Inr r \<Rightarrow> Inr r)))"

text \<open>The token table of the permission example's guard (a \<open>Map\<close>, so no prototype).\<close>

definition Permission_READ :: string where "Permission_READ = ''read''"
definition Permission_CREATE :: string where "Permission_CREATE = ''create''"
definition Permission_UPDATE :: string where "Permission_UPDATE = ''update''"
definition Permission_DELETE :: string where "Permission_DELETE = ''delete''"

definition AuthGuard_users :: "(string \<times> user_object) list" where
  "AuthGuard_users =
     [(''token-read-only'',
       empty_object\<lparr>user_id := Some ''1'', username := Some ''reader'',
         email := Some ''reader@example.com'', permissions := Some [Permission_READ]\<rparr>),
      (''token-creator'',
       empty_object\<lparr>user_id := Some ''2'', username := Some ''creator'',
         email := Some ''creator@example.com'',
         permissions := Some [Permission_READ, Permission_CREATE]\<rparr>),
      (''token-editor'',
       empty_object\<lparr>user_id := Some ''3'', username := Some ''editor'',
         email := Some ''editor@example.com'',
         permissions := Some [Permission_READ, Permission_UPDATE]\<rparr>),
      (''token-full-access'',
       empty_object\<lparr>user_id := Some ''4'', username := Some ''admin'',
         email := Some ''admin@example.com'',
         permissions := Some [Permission_READ, Permission_CREATE, Permission_UPDATE,
           Permission_DELETE]\<rparr>)]"

definition AuthGuard_validateToken :: "string \<Rightarrow> user_object option" where
  "AuthGuard_validateToken token = map_of AuthGuard_users token"

section \<open>Authorization guards\<close>

definition RolesGuard_canActivate :: guard where
  "RolesGuard_canActivate context req =
     (case getAllAndOverride ROLES_KEY [getHandler context, getClass context] of
        None \<Rightarrow> Inr (True, req)
      | Some requiredRoles \<Rightarrow>
          if length requiredRoles = 0 then Inr (True, req)
          else (case user req of
                  None \<Rightarrow> Inl (ForbiddenException ''User roles not found'')
                | Some u \<Rightarrow>
                    (case roles u of
                       None \<Rightarrow> Inl (ForbiddenException ''User roles not found'')
                     | Some user_roles \<Rightarrow>
                         (let hasRole = list_ex (\<lambda>role. role \<in> set user_roles) requiredRoles
                          in if \<not> hasRole
                             then Inl (ForbiddenException
                                    (''Access denied. Required roles: ''
                                     @ join '', '' requiredRoles
                                     @ ''. Your roles: '' @ join '', '' user_roles))
                             else Inr (True, req)))))"

definition PermissionsGuard_canActivate :: guard where
  "PermissionsGuard_canActivate context req =
     (case getAllAndOverride PERMISSIONS_KEY [getHandler context, getClass context] of
        None \<Rightarrow> Inr (True, req)
      | Some requiredPermissions \<Rightarrow>
          if length requiredPermissions = 0 then Inr (True, req)
          else (case user req of
                  None \<Rightarrow> Inl (ForbiddenException ''User permissions not found'')
                | Some u \<Rightarrow>
                    (case permissions u of
                       None \<Rightarrow> Inl (ForbiddenException ''User permissions not found'')
                     | Some user_permissions \<Rightarrow>
                         (let hasAllPermissions =
                                list_all (\<lambda>permission. permission \<in> set user_permissions)
                                  requiredPermissions
                          in if \<not> hasAllPermissions
                             then (let missingPermissions =
                                         filter (\<lambda>permission. permission \<notin> set user_permissions)
                                           requiredPermissions
                                   in Inl (ForbiddenException
                                        (''Access denied. Missing permissions: ''
                                         @ join '', '' missingPermissions
                                         @ ''. Your permissions: ''
                                         @ join '', '' user_permissions)))
                             else Inr (True, req)))))"

definition ModulePermissionsGuard_canActivate :: guard where
  "ModulePermissionsGuard_canActivate context req =
     (case getAllAndOverride MODULE_PERMISSIONS_KEY [getHandler context, getClass context] of
        None \<Rightarrow> Inr (True, req)
      | Some requiredPermissions \<Rightarrow>
          if length requiredPermissions = 0 then Inr (True, req)
          else (case user req of
                  None \<Rightarrow> Inl (ForbiddenException ''User permissions not found'')
                | Some u \<Rightarrow>
                    (case permissions u of
                       None \<Rightarrow> Inl (ForbiddenException ''User permissions not found'')
                     | Some user_permissions \<Rightarrow>
                         (let hasAllPermissions =
                                list_all (\<lambda>permission. permission \<in> set user_permissions)
                                  requiredPermissions
                          in if \<not> hasAllPermissions
                             then (let missingPermissions =
                                         filter (\<lambda>permission. permission \<notin> set user_permissions)
                                           requiredPermissions
                                   in Inl (ForbiddenException
                                        (''Access denied. Missing permissions: ''
                                         @ join '', '' missingPermissions)))
                             else Inr (True, req)))))"

text \<open>
  \<open>@UseGuards(first, second)\<close>: the guards run in order on the same request; an
  exception of the first, or its returning \<open>false\<close>, ends the chain before the second
  runs (the framework answers a \<open>false\<close> with its own 403).
\<close>

definition UseGuards :: "guard \<Rightarrow> guard \<Rightarrow> guard" where
  "UseGuards first second context req =
     (case first context req of
        Inl error \<Rightarrow> Inl error
      | Inr (ok, req') \<Rightarrow>
          if ok then second context req'
          else Inl (ForbiddenException ''Forbidden resource''))"


section \<open>Credential store of the permission example\<close>

text \<open>
  \<open>AuthService\<close> keeps one mutable field, the \<open>Map\<close> from issued tokens to records;
  the methods that touch it take the service and return it updated.
\<close>

record AuthService =
  tokenMap :: "string \<rightharpoonup> user_object"

definition AuthService_new :: AuthService where
  "AuthService_new = \<lparr>tokenMap = Map.empty\<rparr>"

definition AuthService_users :: "user_object list" where
  "AuthService_users =
     [empty_object\<lparr>username := Some ''reader'', password := Some ''password123'',
         permissions := Some [Permission_READ]\<rparr>,
      empty_object\<lparr>username := Some ''creator'', password := Some ''password123'',
         permissions := Some [Permission_READ, Permission_CREATE]\<rparr>,
      empty_object\<lparr>username := Some ''editor'', password := Some ''password123'',
         permissions := Some [Permission_READ, Permission_UPDATE]\<rparr>,
      empty_object\<lparr>username := Some ''admin'', password := Some ''password123'',
         permissions := Some [Permission_READ, Permission_CREATE, Permission_UPDATE, Permission_DELETE]\<rparr>]"

definition AuthService_validateUser :: "string \<Rightarrow> string \<Rightarrow> user_object option" where
  "AuthService_validateUser name pw =
     find (\<lambda>u. username u = Some name \<and> password u = Some pw) AuthService_users"

text \<open>
  \<open>Date.now()\<close> and \<open>Math.random().toString(36).substring(7)\<close> are read from the
  environment; they are the first two arguments of \<open>generateToken\<close>.
\<close>

definition AuthService_generateToken ::
    "nat \<Rightarrow> string \<Rightarrow> string \<Rightarrow> string list \<Rightarrow> AuthService \<Rightarrow> string \<times> AuthService" where
  "AuthService_generateToken now random name perms this =
     (let token = ''token-'' @ name @ ''-'' @ show_nat now @ ''-'' @ random in
      (token,
       this\<lparr>tokenMap := (tokenMap this)
         (token \<mapsto> empty_object\<lparr>username := Some name, permissions := Some perms\<rparr>)\<rparr>))"

text \<open>
  What \<open>validateToken\<close> returns: a record, \<open>null\<close>, or, since the fallback table is an
  object literal indexed by the token, a member of \<open>Object.prototype\<close>.
\<close>

datatype token_result = TokenRecord user_object | PrototypeMember string | Null

definition validateToken_with ::
    "(string \<times> user_object) list \<Rightarrow> AuthService \<Rightarrow> string \<Rightarrow> token_result" where
  "validateToken_with predefinedTokens this token =
     (case tokenMap this token of
        Some r \<Rightarrow> TokenRecord r
      | None \<Rightarrow>
          (case object_get predefinedTokens token of
             Own r \<Rightarrow> TokenRecord r
           | Inherited member \<Rightarrow> PrototypeMember member
           | Undefined \<Rightarrow> Null))"

definition predefinedTokens :: "(string \<times> user_object) list" where
  "predefinedTokens =
     [(''token-read-only'',
       empty_object\<lparr>username := Some ''reader'',
         permissions := Some [Permission_READ]\<rparr>),
      (''token-creator'',
       empty_object\<lparr>username := Some ''creator'',
         permissions := Some [Permission_READ, Permission_CREATE]\<rparr>),
      (''token-editor'',
       empty_object\<lparr>username := Some ''editor'',
         permissions := Some [Permission_READ, Permission_UPDATE]\<rparr>),
      (''token-full-access'',
       empty_object\<lparr>username := Some ''admin'',
         permissions := Some [Permission_READ, Permission_CREATE, Permission_UPDATE, Permission_DELETE]\<rparr>)]"

definition AuthService_validateToken :: "AuthService \<Rightarrow> string \<Rightarrow> token_result" where
  "AuthService_validateToken this token = validateToken_with predefinedTokens this token"

text \<open>A run of \<open>generateToken\<close> calls on one service: the tokens returned, in order.\<close>

fun generateToken_calls ::
    "(nat \<times> string \<times> string \<times> string list) list \<Rightarrow> AuthService \<Rightarrow> string list \<times> AuthService" where
  "generateToken_calls [] this = ([], this)"
| "generateToken_calls ((now, random, name, perms) # calls) this =
     (let (token, this') = AuthService_generateToken now random name perms this;
          (tokens, this'') = generateToken_calls calls this'
      in (token # tokens, this''))"

text \<open>The login handler of \<open>AuthController\<close>.\<close>

record 'token LoginResponse =
  response_message :: string
  response_token :: 'token
  response_user :: user_object

definition AuthController_login ::
    "nat \<Rightarrow> string \<Rightarrow> string \<Rightarrow> string \<Rightarrow> AuthService
      \<Rightarrow> HttpException + (string LoginResponse \<times> AuthService)" where
  "AuthController_login now random name pw authService =
     (case AuthService_validateUser name pw of
        None \<Rightarrow> Inl (UnauthorizedException ''Invalid username or password'')
      | Some u \<Rightarrow>
          (case AuthService_generateToken now random (the (username u))
                  (the (permissions u)) authService of
             (token, authService') \<Rightarrow>
               Inr (\<lparr>response_message = ''Login successful'', response_token = token,
                      response_user = empty_object\<lparr>username := username u,
                        permissions := permissions u\<rparr>\<rparr>,
                    authService')))"

section \<open>Credential store of the module example\<close>

definition USERS_LIST :: string where "USERS_LIST = ''users:list''"
definition USERS_READ :: string where "USERS_READ = ''users:read''"
definition USERS_CREATE :: string where "USERS_CREATE = ''users:create''"
definition USERS_UPDATE :: string where "USERS_UPDATE = ''users:update''"
definition USERS_DELETE :: string where "USERS_DELETE = ''users:delete''"
definition POSTS_LIST :: string where "POSTS_LIST = ''posts:list''"
definition POSTS_READ :: string where "POSTS_READ = ''posts:read''"
definition POSTS_CREATE :: string where "POSTS_CREATE = ''posts:create''"
definition POSTS_UPDATE :: string where "POSTS_UPDATE = ''posts:update''"
definition POSTS_DELETE :: string where "POSTS_DELETE = ''posts:delete''"
definition POSTS_PUBLISH :: string where "POSTS_PUBLISH = ''posts:publish''"
definition PRODUCTS_LIST :: string where "PRODUCTS_LIST = ''products:list''"
definition PRODUCTS_READ :: string where "PRODUCTS_READ = ''products:read''"
definition PRODUCTS_CREATE :: string where "PRODUCTS_CREATE = ''products:create''"
definition PRODUCTS_UPDATE :: string where "PRODUCTS_UPDATE = ''products:update''"
definition PRODUCTS_DELETE :: string where "PRODUCTS_DELETE = ''products:delete''"
definition PRODUCTS_MANAGE_INVENTORY :: string where "PRODUCTS_MANAGE_INVENTORY = ''products:manage_inventory''"
definition ORDERS_LIST :: string where "ORDERS_LIST = ''orders:list''"
definition ORDERS_READ :: string where "ORDERS_READ = ''orders:read''"
definition ORDERS_CREATE :: string where "ORDERS_CREATE = ''orders:create''"
definition ORDERS_UPDATE :: string where "ORDERS_UPDATE = ''orders:update''"
definition ORDERS_DELETE :: string where "ORDERS_DELETE = ''orders:delete''"
definition ORDERS_CANCEL :: string where "ORDERS_CANCEL = ''orders:cancel''"
definition ORDERS_REFUND :: string where "ORDERS_REFUND = ''orders:refund''"

definition ModulePermission_values :: "string list" where
  "ModulePermission_values =
     [USERS_LIST, USERS_READ, USERS_CREATE, USERS_UPDATE,
      USERS_DELETE, POSTS_LIST, POSTS_READ, POSTS_CREATE,
      POSTS_UPDATE, POSTS_DELETE, POSTS_PUBLISH, PRODUCTS_LIST,
      PRODUCTS_READ, PRODUCTS_CREATE, PRODUCTS_UPDATE, PRODUCTS_DELETE,
      PRODUCTS_MANAGE_INVENTORY, ORDERS_LIST, ORDERS_READ, ORDERS_CREATE,
      ORDERS_UPDATE, ORDERS_DELETE, ORDERS_CANCEL, ORDERS_REFUND]"

definition AuthService_generateToken_ex3 ::
    "nat \<Rightarrow> string \<Rightarrow> string \<Rightarrow> string \<Rightarrow> string list \<Rightarrow> AuthService
      \<Rightarrow> string \<times> AuthService" where
  "AuthService_generateToken_ex3 now random name role_name perms this =
     (let token = ''token-'' @ name @ ''-'' @ show_nat now @ ''-'' @ random in
      (token,
       this\<lparr>tokenMap := (tokenMap this)
         (token \<mapsto> empty_object\<lparr>username := Some name, role := Some role_name,
            permissions := Some perms\<rparr>)\<rparr>))"

definition predefinedTokens_ex3 :: "(string \<times> user_object) list" where
  "predefinedTokens_ex3 =
     [(''token-admin-full'',
       empty_object\<lparr>username := Some ''admin'',
         role := Some ''Administrator'',
         permissions := Some ModulePermission_values\<rparr>),
      (''token-content-manager'',
       empty_object\<lparr>username := Some ''content_manager'',
         role := Some ''Content Manager'',
         permissions := Some [POSTS_LIST, POSTS_READ, POSTS_CREATE, POSTS_UPDATE, POSTS_DELETE,
            POSTS_PUBLISH]\<rparr>),
      (''token-product-manager'',
       empty_object\<lparr>username := Some ''product_manager'',
         role := Some ''Product Manager'',
         permissions := Some [PRODUCTS_LIST, PRODUCTS_READ, PRODUCTS_CREATE, PRODUCTS_UPDATE,
            PRODUCTS_DELETE, PRODUCTS_MANAGE_INVENTORY]\<rparr>),
      (''token-customer-service'',
       empty_object\<lparr>username := Some ''customer_service'',
         role := Some ''Customer Service'',
         permissions := Some [USERS_LIST, USERS_READ, USERS_UPDATE, ORDERS_LIST, ORDERS_READ,
            ORDERS_UPDATE, ORDERS_CANCEL, ORDERS_REFUND]\<rparr>),
      (''token-readonly'',
       empty_object\<lparr>username := Some ''readonly'',
         role := Some ''Read Only User'',
         permissions := Some [USERS_LIST, USERS_READ, POSTS_LIST, POSTS_READ, PRODUCTS_LIST,
            PRODUCTS_READ, ORDERS_LIST, ORDERS_READ]\<rparr>)]"

definition AuthService_validateToken_ex3 :: "AuthService \<Rightarrow> string \<Rightarrow> token_result" where
  "AuthService_validateToken_ex3 this token = validateToken_with predefinedTokens_ex3 this token"

fun generateToken_calls_ex3 ::
    "(nat \<times> string \<times> string \<times> string \<times> string list) list \<Rightarrow> AuthService
      \<Rightarrow> string list \<times> AuthService" where
  "generateToken_calls_ex3 [] this = ([], this)"
| "generateToken_calls_ex3 ((now, random, name, role_name, perms) # calls) this =
     (let (token, this') = AuthService_generateToken_ex3 now random name role_name perms this;
          (tokens, this'') = generateToken_calls_ex3 calls this'
      in (token # tokens, this''))"

section \<open>Credential service of the role example\<close>

text \<open>
  The role example signs JSON Web Tokens with the \<open>JwtService\<close> of \<open>@nestjs/jwt\<close>, a
  library outside the repository, configured by \<open>JwtModule.register\<close> with a secret and
  \<open>expiresIn: '24h'\<close>. The service is modelled by the contract the repository relies
  on: \<open>sign\<close> stamps the payload with the time of issue and the expiry 24 hours later,
  both in seconds; \<open>verifyAsync\<close> rejects a token signed with another secret and a
  token whose expiry is not after the current time, and returns the payload otherwise.
  The compact string encoding is not modelled: a token is the claims it encodes and
  the secret that signed it.
\<close>

record jwt =
  jwt_payload :: user_object
  jwt_iat :: nat
  jwt_exp :: nat
  jwt_secret :: string

definition JwtModule_secret :: string where
  "JwtModule_secret = ''your-secret-key-change-this-in-production''"

definition JwtModule_expiresIn :: nat where
  "JwtModule_expiresIn = 24 * 60 * 60"

definition jwtService_sign :: "nat \<Rightarrow> user_object \<Rightarrow> jwt" where
  "jwtService_sign now payload =
     \<lparr>jwt_payload = payload, jwt_iat = now, jwt_exp = now + JwtModule_expiresIn,
      jwt_secret = JwtModule_secret\<rparr>"

datatype jwt_error = JsonWebTokenError | TokenExpiredError

definition jwtService_verifyAsync :: "nat \<Rightarrow> jwt \<Rightarrow> jwt_error + user_object" where
  "jwtService_verifyAsync now token =
     (if jwt_secret token \<noteq> JwtModule_secret then Inl JsonWebTokenError
      else if jwt_exp token \<le> now then Inl TokenExpiredError
      else Inr (jwt_payload token))"

definition Role_READ :: string where "Role_READ = ''read''"
definition Role_ADMIN :: string where "Role_ADMIN = ''admin''"
definition Role_MANAGER :: string where "Role_MANAGER = ''manager''"
definition Role_SUPER_ADMIN :: string where "Role_SUPER_ADMIN = ''super_admin''"

definition JwtAuthService_generateToken :: "nat \<Rightarrow> user_object \<Rightarrow> jwt" where
  "JwtAuthService_generateToken now u =
     (let payload = empty_object\<lparr>user_id := user_id u, username := username u,
            email := email u, roles := roles u\<rparr>
      in jwtService_sign now payload)"

definition JwtAuthService_verifyToken :: "nat \<Rightarrow> jwt \<Rightarrow> user_object option" where
  "JwtAuthService_verifyToken now token =
     (case jwtService_verifyAsync now token of
        Inl error \<Rightarrow> None
      | Inr payload \<Rightarrow>
          Some (empty_object\<lparr>user_id := user_id payload, username := username payload,
                  email := email payload, roles := roles payload\<rparr>))"

definition JwtAuthService_users :: "user_object list" where
  "JwtAuthService_users =
     [empty_object\<lparr>user_id := Some ''1'', username := Some ''john_admin'',
        email := Some ''john@example.com'', roles := Some [Role_ADMIN, Role_READ]\<rparr>,
      empty_object\<lparr>user_id := Some ''2'', username := Some ''jane_manager'',
        email := Some ''jane@example.com'', roles := Some [Role_MANAGER, Role_READ]\<rparr>,
      empty_object\<lparr>user_id := Some ''3'', username := Some ''super_admin'',
        email := Some ''super@example.com'',
        roles := Some [Role_SUPER_ADMIN, Role_ADMIN, Role_MANAGER, Role_READ]\<rparr>,
      empty_object\<lparr>user_id := Some ''4'', username := Some ''reader'',
        email := Some ''reader@example.com'', roles := Some [Role_READ]\<rparr>]"

definition JwtAuthService_validateUser :: "string \<Rightarrow> string \<Rightarrow> user_object option" where
  "JwtAuthService_validateUser name pw =
     find (\<lambda>u. username u = Some name) JwtAuthService_users"

text \<open>The login handler of the role example's \<open>UsersController\<close>.\<close>

definition UsersController_login ::
    "nat \<Rightarrow> string \<Rightarrow> string \<Rightarrow> HttpException + jwt LoginResponse" where
  "UsersController_login now name pw =
     (case JwtAuthService_validateUser name pw of
        None \<Rightarrow> Inl (UnauthorizedException ''Invalid credentials'')
      | Some u \<Rightarrow>
          (let token = JwtAuthService_generateToken now u in
           Inr \<lparr>response_message = ''Login successful'', response_token = token,
                response_user = empty_object\<lparr>username := username u, roles := roles u\<rparr>\<rparr>))"


section \<open>Header parsing\<close>

lemma split_not_Nil: "split sep s \<noteq> []"
  by (induction s) (auto split: list.splits)

lemma split_append_sep:
  "sep \<notin> set w \<Longrightarrow> split sep (w @ sep # rest) = w # split sep rest"
  by (induction w) auto

lemma hd_split: "hd (split sep s) = takeWhile (\<lambda>c. c \<noteq> sep) s"
  by (induction s) (auto split: list.splits simp: split_not_Nil)

lemma extractTokenFromHeader_absent:
  "authorization req = None \<Longrightarrow> extractTokenFromHeader req = None"
  by (simp add: extractTokenFromHeader_def)

lemma extractTokenFromHeader_scheme:
  assumes "authorization req = Some h"
    and "takeWhile (\<lambda>c. c \<noteq> CHR '' '') h \<noteq> ''Bearer''"
  shows "extractTokenFromHeader req = None"
  using assms hd_split [of "CHR '' ''" h] split_not_Nil [of "CHR '' ''" h]
  by (cases "split CHR '' '' h") (auto simp: extractTokenFromHeader_def at_index_def Let_def)

lemma extractTokenFromHeader_only_scheme:
  "authorization req = Some ''Bearer'' \<Longrightarrow> extractTokenFromHeader req = None"
  by (simp add: extractTokenFromHeader_def at_index_def)

lemma extractTokenFromHeader_token:
  assumes "authorization req = Some (''Bearer '' @ rest)"
  shows "extractTokenFromHeader req = Some (takeWhile (\<lambda>c. c \<noteq> CHR '' '') rest)"
proof -
  have "split CHR '' '' (''Bearer'' @ CHR '' '' # rest) = ''Bearer'' # split CHR '' '' rest"
    by (rule split_append_sep) simp
  moreover obtain w ws where "split CHR '' '' rest = w # ws"
    using split_not_Nil [of "CHR '' ''" rest] by (cases "split CHR '' '' rest") auto
  moreover from this have "w = takeWhile (\<lambda>c. c \<noteq> CHR '' '') rest"
    using hd_split [of "CHR '' ''" rest] by simp
  ultimately show ?thesis
    using assms by (simp add: extractTokenFromHeader_def at_index_def)
qed

section \<open>The authentication guard, case by case\<close>

lemma AuthGuard_public:
  "getAllAndOverride IS_PUBLIC_KEY [getHandler context, getClass context] = Some True
     \<Longrightarrow> AuthGuard_canActivate validateToken context req = Inr (True, req)"
  by (simp add: AuthGuard_canActivate_def)

lemma AuthGuard_no_token:
  assumes "getAllAndOverride IS_PUBLIC_KEY [getHandler context, getClass context] \<noteq> Some True"
    and "extractTokenFromHeader req = None \<or> extractTokenFromHeader req = Some []"
  shows "AuthGuard_canActivate validateToken context req =
           Inl (UnauthorizedException ''Authentication token not found'')"
  using assms by (auto simp: AuthGuard_canActivate_def)

lemma AuthGuard_token:
  assumes "getAllAndOverride IS_PUBLIC_KEY [getHandler context, getClass context] \<noteq> Some True"
    and "extractTokenFromHeader req = Some token" and "token \<noteq> []"
  shows "AuthGuard_canActivate validateToken context req =
           (case validateToken token of
              None \<Rightarrow> Inl (UnauthorizedException ''Token validation failed'')
            | Some u \<Rightarrow> Inr (True, req\<lparr>user := Some u\<rparr>))"
  using assms by (simp add: AuthGuard_canActivate_def AuthGuard_try_def split: option.splits)

lemma UseGuards_first_throws:
  "first context req = Inl error \<Longrightarrow> UseGuards first second context req = Inl error"
  by (simp add: UseGuards_def)

lemma UseGuards_first_passes:
  "first context req = Inr (True, req') \<Longrightarrow>
     UseGuards first second context req = second context req'"
  by (simp add: UseGuards_def)

section \<open>The authorization guards, case by case\<close>

lemma RolesGuard_no_requirement:
  assumes "getAllAndOverride ROLES_KEY [getHandler context, getClass context] = None
         \<or> getAllAndOverride ROLES_KEY [getHandler context, getClass context] = Some []"
  shows "RolesGuard_canActivate context req = Inr (True, req)"
  using assms unfolding RolesGuard_canActivate_def by auto

lemma RolesGuard_no_roles:
  assumes "getAllAndOverride ROLES_KEY [getHandler context, getClass context] = Some required"
    and "required \<noteq> []"
    and "user req = None \<or> (\<exists>u. user req = Some u \<and> roles u = None)"
  shows "RolesGuard_canActivate context req = Inl (ForbiddenException ''User roles not found'')"
  using assms unfolding RolesGuard_canActivate_def by auto

lemma RolesGuard_decision:
  assumes "getAllAndOverride ROLES_KEY [getHandler context, getClass context] = Some required"
    and "required \<noteq> []" and "user req = Some u" and "roles u = Some granted"
  shows "RolesGuard_canActivate context req =
           (if set required \<inter> set granted \<noteq> {} then Inr (True, req)
            else Inl (ForbiddenException
                   (''Access denied. Required roles: '' @ join '', '' required
                    @ ''. Your roles: '' @ join '', '' granted)))"
  using assms unfolding RolesGuard_canActivate_def by (auto simp: list_ex_iff)

lemma PermissionsGuard_no_requirement:
  assumes "getAllAndOverride PERMISSIONS_KEY [getHandler context, getClass context] = None
         \<or> getAllAndOverride PERMISSIONS_KEY [getHandler context, getClass context] = Some []"
  shows "PermissionsGuard_canActivate context req = Inr (True, req)"
  using assms unfolding PermissionsGuard_canActivate_def by auto

lemma PermissionsGuard_no_permissions:
  assumes "getAllAndOverride PERMISSIONS_KEY [getHandler context, getClass context]
             = Some required"
    and "required \<noteq> []"
    and "user req = None \<or> (\<exists>u. user req = Some u \<and> permissions u = None)"
  shows "PermissionsGuard_canActivate context req =
           Inl (ForbiddenException ''User permissions not found'')"
  using assms unfolding PermissionsGuard_canActivate_def by auto

lemma PermissionsGuard_decision:
  assumes "getAllAndOverride PERMISSIONS_KEY [getHandler context, getClass context]
             = Some required"
    and "required \<noteq> []" and "user req = Some u" and "permissions u = Some granted"
  shows "PermissionsGuard_canActivate context req =
           (if set required \<subseteq> set granted then Inr (True, req)
            else Inl (ForbiddenException
                   (''Access denied. Missing permissions: ''
                    @ join '', '' (filter (\<lambda>permission. permission \<notin> set granted) required)
                    @ ''. Your permissions: '' @ join '', '' granted)))"
  using assms unfolding PermissionsGuard_canActivate_def by (auto simp: list_all_iff)

lemma ModulePermissionsGuard_no_requirement:
  assumes "getAllAndOverride MODULE_PERMISSIONS_KEY [getHandler context, getClass context] = None
         \<or> getAllAndOverride MODULE_PERMISSIONS_KEY [getHandler context, getClass context]
             = Some []"
  shows "ModulePermissionsGuard_canActivate context req = Inr (True, req)"
  using assms unfolding ModulePermissionsGuard_canActivate_def by auto

lemma ModulePermissionsGuard_no_permissions:
  assumes "getAllAndOverride MODULE_PERMISSIONS_KEY [getHandler context, getClass context]
             = Some required"
    and "required \<noteq> []"
    and "user req = None \<or> (\<exists>u. user req = Some u \<and> permissions u = None)"
  shows "ModulePermissionsGuard_canActivate context req =
           Inl (ForbiddenException ''User permissions not found'')"
  using assms unfolding ModulePermissionsGuard_canActivate_def by auto

lemma ModulePermissionsGuard_decision:
  assumes "getAllAndOverride MODULE_PERMISSIONS_KEY [getHandler context, getClass context]
             = Some required"
    and "required \<noteq> []" and "user req = Some u" and "permissions u = Some granted"
  shows "ModulePermissionsGuard_canActivate context req =
           (if set required \<subseteq> set granted then Inr (True, req)
            else Inl (ForbiddenException
                   (''Access denied. Missing permissions: ''
                    @ join '', '' (filter (\<lambda>permission. permission \<notin> set granted) required))))"
  using assms unfolding ModulePermissionsGuard_canActivate_def by (auto simp: list_all_iff)

lemma missing_set:
  "set (filter (\<lambda>permission. permission \<notin> set granted) required) = set required - set granted"
  by auto


section \<open>Role guard: the ANY rule\<close>

text \<open>
  Claim C1. In the role model, for a route whose required role list is not empty and a
  request whose user carries a \<open>roles\<close> field, \<open>RolesGuard\<close> allows the request exactly
  when some required role is among the user's roles. Otherwise it throws a 403 whose
  message lists every required role and every role of the caller, each list joined by
  a comma and a space.
\<close>

theorem RolesGuard_any_rule:
  assumes "getAllAndOverride ROLES_KEY [getHandler context, getClass context] = Some required"
    and "required \<noteq> []" and "user req = Some u" and "roles u = Some granted"
  shows "(RolesGuard_canActivate context req = Inr (True, req)
            \<longleftrightarrow> set required \<inter> set granted \<noteq> {})
       \<and> (set required \<inter> set granted = {} \<longrightarrow>
            (\<exists>error. RolesGuard_canActivate context req = Inl error
               \<and> getStatus error = 403
               \<and> message error =
                   ''Access denied. Required roles: '' @ join '', '' required
                   @ ''. Your roles: '' @ join '', '' granted))"
  using RolesGuard_decision [OF assms] by auto

theorem RolesGuard_any_rule_witness:
  "(RolesGuard_canActivate
      \<lparr>getHandler = no_metadata\<lparr>ROLES_KEY := Some [Role_ADMIN, Role_SUPER_ADMIN]\<rparr>,
       getClass = no_metadata\<rparr>
      \<lparr>authorization = Some ''Bearer x'',
       user = Some (empty_object\<lparr>roles := Some [Role_READ]\<rparr>)\<rparr>
    \<noteq> Inr (True, \<lparr>authorization = Some ''Bearer x'',
                   user = Some (empty_object\<lparr>roles := Some [Role_READ]\<rparr>)\<rparr>))
   \<and> (\<exists>error. RolesGuard_canActivate
        \<lparr>getHandler = no_metadata\<lparr>ROLES_KEY := Some [Role_ADMIN, Role_SUPER_ADMIN]\<rparr>,
         getClass = no_metadata\<rparr>
        \<lparr>authorization = Some ''Bearer x'',
         user = Some (empty_object\<lparr>roles := Some [Role_READ]\<rparr>)\<rparr> = Inl error
      \<and> getStatus error = 403
      \<and> message error =
          ''Access denied. Required roles: admin, super_admin. Your roles: read'')"
  using RolesGuard_any_rule [of
     "\<lparr>getHandler = no_metadata\<lparr>ROLES_KEY := Some [Role_ADMIN, Role_SUPER_ADMIN]\<rparr>,
      getClass = no_metadata\<rparr>"
     "[Role_ADMIN, Role_SUPER_ADMIN]"
     "\<lparr>authorization = Some ''Bearer x'',
      user = Some (empty_object\<lparr>roles := Some [Role_READ]\<rparr>)\<rparr>"
     "empty_object\<lparr>roles := Some [Role_READ]\<rparr>" "[Role_READ]"]
  by (simp add: no_metadata_def empty_object_def Role_ADMIN_def Role_SUPER_ADMIN_def
        Role_READ_def)

section \<open>Permission guards: the ALL rule\<close>

text \<open>
  Claim C2. In the action-permission and the module-permission model, for a route
  whose required permission list is not empty and a request whose user carries a
  \<open>permissions\<close> field, the guard allows the request exactly when every required
  permission is among the user's permissions. Otherwise it throws a 403 whose message
  lists the required permissions the user lacks, and that list has exactly the
  elements of the required set minus the granted set.
\<close>

theorem permission_guards_all_rule:
  assumes "required \<noteq> []" and "user req = Some u" and "permissions u = Some granted"
  shows "set (filter (\<lambda>permission. permission \<notin> set granted) required)
           = set required - set granted
       \<and> (getAllAndOverride PERMISSIONS_KEY [getHandler context, getClass context]
            = Some required \<longrightarrow>
            (PermissionsGuard_canActivate context req = Inr (True, req)
               \<longleftrightarrow> set required \<subseteq> set granted)
          \<and> (\<not> set required \<subseteq> set granted \<longrightarrow>
               (\<exists>error. PermissionsGuard_canActivate context req = Inl error
                  \<and> getStatus error = 403
                  \<and> message error =
                      ''Access denied. Missing permissions: ''
                      @ join '', '' (filter (\<lambda>permission. permission \<notin> set granted) required)
                      @ ''. Your permissions: '' @ join '', '' granted)))
       \<and> (getAllAndOverride MODULE_PERMISSIONS_KEY [getHandler context, getClass context]
            = Some required \<longrightarrow>
            (ModulePermissionsGuard_canActivate context req = Inr (True, req)
               \<longleftrightarrow> set required \<subseteq> set granted)
          \<and> (\<not> set required \<subseteq> set granted \<longrightarrow>
               (\<exists>error. ModulePermissionsGuard_canActivate context req = Inl error
                  \<and> getStatus error = 403
                  \<and> message error =
                      ''Access denied. Missing permissions: ''
                      @ join '', ''
                          (filter (\<lambda>permission. permission \<notin> set granted) required))))"
proof (intro conjI impI)
  show "set (filter (\<lambda>permission. permission \<notin> set granted) required)
          = set required - set granted"
    by (rule missing_set)
next
  assume r: "getAllAndOverride PERMISSIONS_KEY [getHandler context, getClass context]
               = Some required"
  note d = PermissionsGuard_decision [OF r assms]
  show "(PermissionsGuard_canActivate context req = Inr (True, req))
          = (set required \<subseteq> set granted)"
    using d by (simp split: if_splits)
  assume "\<not> set required \<subseteq> set granted"
  then show "\<exists>error. PermissionsGuard_canActivate context req = Inl error
      \<and> getStatus error = 403
      \<and> message error =
          ''Access denied. Missing permissions: ''
          @ join '', '' (filter (\<lambda>permission. permission \<notin> set granted) required)
          @ ''. Your permissions: '' @ join '', '' granted"
    using d by simp
next
  assume r: "getAllAndOverride MODULE_PERMISSIONS_KEY [getHandler context, getClass context]
               = Some required"
  note d = ModulePermissionsGuard_decision [OF r assms]
  show "(ModulePermissionsGuard_canActivate context req = Inr (True, req))
          = (set required \<subseteq> set granted)"
    using d by (simp split: if_splits)
  assume "\<not> set required \<subseteq> set granted"
  then show "\<exists>error. ModulePermissionsGuard_canActivate context req = Inl error
      \<and> getStatus error = 403
      \<and> message error =
          ''Access denied. Missing permissions: ''
          @ join '', '' (filter (\<lambda>permission. permission \<notin> set granted) required)"
    using d by simp
qed

theorem permission_guards_all_rule_witness:
  "set (filter (\<lambda>permission. permission \<notin> set [''A'']) [''A'', ''B'']) = {''B''}
   \<and> (\<exists>error. PermissionsGuard_canActivate
         \<lparr>getHandler = no_metadata\<lparr>PERMISSIONS_KEY := Some [''A'', ''B''],
            MODULE_PERMISSIONS_KEY := Some [''A'', ''B'']\<rparr>, getClass = no_metadata\<rparr>
         \<lparr>authorization = None, user = Some (empty_object\<lparr>permissions := Some [''A'']\<rparr>)\<rparr>
         = Inl error
       \<and> getStatus error = 403
       \<and> message error = ''Access denied. Missing permissions: B. Your permissions: A'')
   \<and> (\<exists>error. ModulePermissionsGuard_canActivate
         \<lparr>getHandler = no_metadata\<lparr>PERMISSIONS_KEY := Some [''A'', ''B''],
            MODULE_PERMISSIONS_KEY := Some [''A'', ''B'']\<rparr>, getClass = no_metadata\<rparr>
         \<lparr>authorization = None, user = Some (empty_object\<lparr>permissions := Some [''A'']\<rparr>)\<rparr>
         = Inl error
       \<and> getStatus error = 403
       \<and> message error = ''Access denied. Missing permissions: B'')"
  using permission_guards_all_rule [of "[''A'', ''B'']"
     "\<lparr>authorization = None, user = Some (empty_object\<lparr>permissions := Some [''A'']\<rparr>)\<rparr>"
     "empty_object\<lparr>permissions := Some [''A'']\<rparr>" "[''A'']"
     "\<lparr>getHandler = no_metadata\<lparr>PERMISSIONS_KEY := Some [''A'', ''B''],
        MODULE_PERMISSIONS_KEY := Some [''A'', ''B'']\<rparr>, getClass = no_metadata\<rparr>"]
  by (simp add: no_metadata_def empty_object_def)


section \<open>Preconditions of the authorization guards\<close>

text \<open>
  Claim C3, as stated: when the route requires something and the user's granted list
  is present but empty, the guard should deny with the error for missing capabilities
  (\<open>User permissions not found\<close>). The guards test the field with \<open>!user.permissions\<close>,
  which an empty array passes, so the request falls through to the matching rule and
  is denied with the error for insufficient capabilities.
\<close>

theorem empty_granted_set_counterexample:
  "PermissionsGuard_canActivate
     \<lparr>getHandler = no_metadata\<lparr>PERMISSIONS_KEY := Some [Permission_READ]\<rparr>,
      getClass = no_metadata\<rparr>
     \<lparr>authorization = Some ''Bearer x'',
      user = Some (empty_object\<lparr>permissions := Some []\<rparr>)\<rparr>
   = Inl (ForbiddenException ''Access denied. Missing permissions: read. Your permissions: '')
   \<and> PermissionsGuard_canActivate
     \<lparr>getHandler = no_metadata\<lparr>PERMISSIONS_KEY := Some [Permission_READ]\<rparr>,
      getClass = no_metadata\<rparr>
     \<lparr>authorization = Some ''Bearer x'',
      user = Some (empty_object\<lparr>permissions := Some []\<rparr>)\<rparr>
   \<noteq> Inl (ForbiddenException ''User permissions not found'')"
  by (simp add: PermissionsGuard_canActivate_def no_metadata_def empty_object_def
        Permission_READ_def)

text \<open>
  Claim C3, amended. A guard whose route has no required list, or an empty one,
  returns \<open>true\<close> for every request and leaves it unchanged, whatever \<open>request.user\<close>
  is. When the required list is not empty and the user, or the user's granted field,
  is absent, the guard throws the 403 \<open>User roles not found\<close> (role guard) or
  \<open>User permissions not found\<close> (permission guards). A granted list that is present but
  empty is denied by the matching rule instead, with the \<open>Access denied\<close> message.
\<close>

theorem authorization_preconditions:
  "(getAllAndOverride ROLES_KEY [getHandler context, getClass context] = None
      \<or> getAllAndOverride ROLES_KEY [getHandler context, getClass context] = Some []
    \<longrightarrow> RolesGuard_canActivate context req = Inr (True, req))
 \<and> (getAllAndOverride PERMISSIONS_KEY [getHandler context, getClass context] = None
      \<or> getAllAndOverride PERMISSIONS_KEY [getHandler context, getClass context] = Some []
    \<longrightarrow> PermissionsGuard_canActivate context req = Inr (True, req))
 \<and> (getAllAndOverride MODULE_PERMISSIONS_KEY [getHandler context, getClass context] = None
      \<or> getAllAndOverride MODULE_PERMISSIONS_KEY [getHandler context, getClass context]
          = Some []
    \<longrightarrow> ModulePermissionsGuard_canActivate context req = Inr (True, req))
 \<and> (required \<noteq> [] \<and> (user req = None \<or> (\<exists>u. user req = Some u \<and> roles u = None))
      \<and> getAllAndOverride ROLES_KEY [getHandler context, getClass context] = Some required
    \<longrightarrow> RolesGuard_canActivate context req
          = Inl (ForbiddenException ''User roles not found''))
 \<and> (required \<noteq> [] \<and> (user req = None \<or> (\<exists>u. user req = Some u \<and> permissions u = None))
      \<and> getAllAndOverride PERMISSIONS_KEY [getHandler context, getClass context]
          = Some required
    \<longrightarrow> PermissionsGuard_canActivate context req
          = Inl (ForbiddenException ''User permissions not found''))
 \<and> (required \<noteq> [] \<and> (user req = None \<or> (\<exists>u. user req = Some u \<and> permissions u = None))
      \<and> getAllAndOverride MODULE_PERMISSIONS_KEY [getHandler context, getClass context]
          = Some required
    \<longrightarrow> ModulePermissionsGuard_canActivate context req
          = Inl (ForbiddenException ''User permissions not found''))
 \<and> (required \<noteq> [] \<and> (\<exists>u. user req = Some u \<and> roles u = Some [])
      \<and> getAllAndOverride ROLES_KEY [getHandler context, getClass context] = Some required
    \<longrightarrow> RolesGuard_canActivate context req
          = Inl (ForbiddenException
                  (''Access denied. Required roles: '' @ join '', '' required
                   @ ''. Your roles: '')))
 \<and> (required \<noteq> [] \<and> (\<exists>u. user req = Some u \<and> permissions u = Some [])
      \<and> getAllAndOverride PERMISSIONS_KEY [getHandler context, getClass context]
          = Some required
    \<longrightarrow> PermissionsGuard_canActivate context req
          = Inl (ForbiddenException
                  (''Access denied. Missing permissions: '' @ join '', '' required
                   @ ''. Your permissions: '')))
 \<and> (required \<noteq> [] \<and> (\<exists>u. user req = Some u \<and> permissions u = Some [])
      \<and> getAllAndOverride MODULE_PERMISSIONS_KEY [getHandler context, getClass context]
          = Some required
    \<longrightarrow> ModulePermissionsGuard_canActivate context req
          = Inl (ForbiddenException
                  (''Access denied. Missing permissions: '' @ join '', '' required)))"
proof (intro conjI impI; (elim conjE)?)
  show "RolesGuard_canActivate context req = Inr (True, req)"
    if "getAllAndOverride ROLES_KEY [getHandler context, getClass context] = None
      \<or> getAllAndOverride ROLES_KEY [getHandler context, getClass context] = Some []"
    using that by (rule RolesGuard_no_requirement)
  show "PermissionsGuard_canActivate context req = Inr (True, req)"
    if "getAllAndOverride PERMISSIONS_KEY [getHandler context, getClass context] = None
      \<or> getAllAndOverride PERMISSIONS_KEY [getHandler context, getClass context] = Some []"
    using that by (rule PermissionsGuard_no_requirement)
  show "ModulePermissionsGuard_canActivate context req = Inr (True, req)"
    if "getAllAndOverride MODULE_PERMISSIONS_KEY [getHandler context, getClass context] = None
      \<or> getAllAndOverride MODULE_PERMISSIONS_KEY [getHandler context, getClass context]
          = Some []"
    using that by (rule ModulePermissionsGuard_no_requirement)
  show "RolesGuard_canActivate context req = Inl (ForbiddenException ''User roles not found'')"
    if "required \<noteq> []" "user req = None \<or> (\<exists>u. user req = Some u \<and> roles u = None)"
      "getAllAndOverride ROLES_KEY [getHandler context, getClass context] = Some required"
    using that by (intro RolesGuard_no_roles)
  show "PermissionsGuard_canActivate context req
          = Inl (ForbiddenException ''User permissions not found'')"
    if "required \<noteq> []" "user req = None \<or> (\<exists>u. user req = Some u \<and> permissions u = None)"
      "getAllAndOverride PERMISSIONS_KEY [getHandler context, getClass context] = Some required"
    using that by (intro PermissionsGuard_no_permissions)
  show "ModulePermissionsGuard_canActivate context req
          = Inl (ForbiddenException ''User permissions not found'')"
    if "required \<noteq> []" "user req = None \<or> (\<exists>u. user req = Some u \<and> permissions u = None)"
      "getAllAndOverride MODULE_PERMISSIONS_KEY [getHandler context, getClass context]
         = Some required"
    using that by (intro ModulePermissionsGuard_no_permissions)
  show "RolesGuard_canActivate context req
          = Inl (ForbiddenException
                  (''Access denied. Required roles: '' @ join '', '' required
                   @ ''. Your roles: ''))"
    if "required \<noteq> []" "\<exists>u. user req = Some u \<and> roles u = Some []"
      "getAllAndOverride ROLES_KEY [getHandler context, getClass context] = Some required"
    using that RolesGuard_decision [of "context" required req _ "[]"] by auto
  show "PermissionsGuard_canActivate context req
          = Inl (ForbiddenException
                  (''Access denied. Missing permissions: '' @ join '', '' required
                   @ ''. Your permissions: ''))"
    if "required \<noteq> []" "\<exists>u. user req = Some u \<and> permissions u = Some []"
      "getAllAndOverride PERMISSIONS_KEY [getHandler context, getClass context] = Some required"
    using that PermissionsGuard_decision [of "context" required req _ "[]"] by auto
  show "ModulePermissionsGuard_canActivate context req
          = Inl (ForbiddenException
                  (''Access denied. Missing permissions: '' @ join '', '' required))"
    if "required \<noteq> []" "\<exists>u. user req = Some u \<and> permissions u = Some []"
      "getAllAndOverride MODULE_PERMISSIONS_KEY [getHandler context, getClass context]
         = Some required"
    using that ModulePermissionsGuard_decision [of "context" required req _ "[]"] by auto
qed

theorem authorization_preconditions_witness:
  "RolesGuard_canActivate \<lparr>getHandler = no_metadata, getClass = no_metadata\<rparr>
      \<lparr>authorization = None, user = None\<rparr>
     = Inr (True, \<lparr>authorization = None, user = None\<rparr>)
   \<and> PermissionsGuard_canActivate \<lparr>getHandler = no_metadata, getClass = no_metadata\<rparr>
      \<lparr>authorization = None, user = None\<rparr>
     = Inr (True, \<lparr>authorization = None, user = None\<rparr>)
   \<and> ModulePermissionsGuard_canActivate \<lparr>getHandler = no_metadata, getClass = no_metadata\<rparr>
      \<lparr>authorization = None, user = None\<rparr>
     = Inr (True, \<lparr>authorization = None, user = None\<rparr>)
   \<and> RolesGuard_canActivate
      \<lparr>getHandler = \<lparr>IS_PUBLIC_KEY = None, ROLES_KEY = Some [''admin''],
         PERMISSIONS_KEY = Some [''admin''], MODULE_PERMISSIONS_KEY = Some [''admin'']\<rparr>,
       getClass = no_metadata\<rparr>
      \<lparr>authorization = None, user = None\<rparr>
     = Inl (ForbiddenException ''User roles not found'')
   \<and> PermissionsGuard_canActivate
      \<lparr>getHandler = \<lparr>IS_PUBLIC_KEY = None, ROLES_KEY = Some [''admin''],
         PERMISSIONS_KEY = Some [''admin''], MODULE_PERMISSIONS_KEY = Some [''admin'']\<rparr>,
       getClass = no_metadata\<rparr>
      \<lparr>authorization = None, user = None\<rparr>
     = Inl (ForbiddenException ''User permissions not found'')
   \<and> ModulePermissionsGuard_canActivate
      \<lparr>getHandler = \<lparr>IS_PUBLIC_KEY = None, ROLES_KEY = Some [''admin''],
         PERMISSIONS_KEY = Some [''admin''], MODULE_PERMISSIONS_KEY = Some [''admin'']\<rparr>,
       getClass = no_metadata\<rparr>
      \<lparr>authorization = None, user = None\<rparr>
     = Inl (ForbiddenException ''User permissions not found'')
   \<and> RolesGuard_canActivate
      \<lparr>getHandler = \<lparr>IS_PUBLIC_KEY = None, ROLES_KEY = Some [''admin''],
         PERMISSIONS_KEY = Some [''admin''], MODULE_PERMISSIONS_KEY = Some [''admin'']\<rparr>,
       getClass = no_metadata\<rparr>
      \<lparr>authorization = None,
       user = Some (empty_object\<lparr>roles := Some [], permissions := Some []\<rparr>)\<rparr>
     = Inl (ForbiddenException ''Access denied. Required roles: admin. Your roles: '')
   \<and> PermissionsGuard_canActivate
      \<lparr>getHandler = \<lparr>IS_PUBLIC_KEY = None, ROLES_KEY = Some [''admin''],
         PERMISSIONS_KEY = Some [''admin''], MODULE_PERMISSIONS_KEY = Some [''admin'']\<rparr>,
       getClass = no_metadata\<rparr>
      \<lparr>authorization = None,
       user = Some (empty_object\<lparr>roles := Some [], permissions := Some []\<rparr>)\<rparr>
     = Inl (ForbiddenException
             ''Access denied. Missing permissions: admin. Your permissions: '')
   \<and> ModulePermissionsGuard_canActivate
      \<lparr>getHandler = \<lparr>IS_PUBLIC_KEY = None, ROLES_KEY = Some [''admin''],
         PERMISSIONS_KEY = Some [''admin''], MODULE_PERMISSIONS_KEY = Some [''admin'']\<rparr>,
       getClass = no_metadata\<rparr>
      \<lparr>authorization = None,
       user = Some (empty_object\<lparr>roles := Some [], permissions := Some []\<rparr>)\<rparr>
     = Inl (ForbiddenException ''Access denied. Missing permissions: admin'')"
  using
    authorization_preconditions [of "\<lparr>getHandler = no_metadata, getClass = no_metadata\<rparr>"
      "\<lparr>authorization = None, user = None\<rparr>" "[''admin'']"]
    authorization_preconditions [of
      "\<lparr>getHandler = \<lparr>IS_PUBLIC_KEY = None, ROLES_KEY = Some [''admin''],
         PERMISSIONS_KEY = Some [''admin''], MODULE_PERMISSIONS_KEY = Some [''admin'']\<rparr>,
       getClass = no_metadata\<rparr>"
      "\<lparr>authorization = None, user = None\<rparr>" "[''admin'']"]
    authorization_preconditions [of
      "\<lparr>getHandler = \<lparr>IS_PUBLIC_KEY = None, ROLES_KEY = Some [''admin''],
         PERMISSIONS_KEY = Some [''admin''], MODULE_PERMISSIONS_KEY = Some [''admin'']\<rparr>,
       getClass = no_metadata\<rparr>"
      "\<lparr>authorization = None,
       user = Some (empty_object\<lparr>roles := Some [], permissions := Some []\<rparr>)\<rparr>"
      "[''admin'']"]
  by (simp add: no_metadata_def empty_object_def)


section \<open>Authentication failures\<close>

lemma takeWhile_no_sep: "sep \<notin> set w \<Longrightarrow> takeWhile (\<lambda>c. c \<noteq> sep) w = w"
  by (induction w) auto

lemma takeWhile_until_sep:
  "sep \<notin> set w \<Longrightarrow> takeWhile (\<lambda>c. c \<noteq> sep) (w @ sep # rest) = w"
  by (induction w) auto

lemma AuthGuard_users_keys: "fst ` set AuthGuard_users = fst ` set predefinedTokens"
  by (simp add: AuthGuard_users_def predefinedTokens_def)

lemma AuthGuard_validateToken_unknown:
  "token \<notin> fst ` set predefinedTokens \<Longrightarrow> AuthGuard_validateToken token = None"
  unfolding AuthGuard_validateToken_def
  using AuthGuard_users_keys by (simp add: map_of_eq_None_iff)

text \<open>
  Claim C4. On a route that is not public, a request with no authorization header, or
  with a header whose scheme word (the text before its first space) is not exactly
  \<open>Bearer\<close>, is rejected with the exception \<open>Authentication token not found\<close>. A
  request whose bearer token the credential lookup does not know is rejected with the
  exception that leaves the \<open>catch\<close> clause, \<open>Token validation failed\<close>; for the guard
  of the permission example that is every token in neither the token map nor the
  predefined table. Both exceptions have status 401, and the chain's result does not
  depend on the second guard: the authorization guard is not run.
\<close>

theorem authentication_failures:
  assumes "getAllAndOverride IS_PUBLIC_KEY [getHandler context, getClass context] \<noteq> Some True"
  shows "(authorization req = None
            \<or> (\<exists>h. authorization req = Some h
                  \<and> takeWhile (\<lambda>c. c \<noteq> CHR '' '') h \<noteq> ''Bearer'')
          \<longrightarrow> UseGuards (AuthGuard_canActivate validateToken) second context req
                = Inl (UnauthorizedException ''Authentication token not found''))
       \<and> (token \<noteq> [] \<and> CHR '' '' \<notin> set token
            \<and> authorization req = Some (''Bearer '' @ token)
            \<and> validateToken token = None
          \<longrightarrow> UseGuards (AuthGuard_canActivate validateToken) second context req
                = Inl (UnauthorizedException ''Token validation failed''))
       \<and> (token \<noteq> [] \<and> CHR '' '' \<notin> set token
            \<and> authorization req = Some (''Bearer '' @ token)
            \<and> token \<notin> dom (tokenMap authService) \<and> token \<notin> fst ` set predefinedTokens
          \<longrightarrow> UseGuards (AuthGuard_canActivate AuthGuard_validateToken) second context req
                = Inl (UnauthorizedException ''Token validation failed''))
       \<and> getStatus (UnauthorizedException ''Authentication token not found'') = 401
       \<and> getStatus (UnauthorizedException ''Token validation failed'') = 401"
proof -
  have unknown: "UseGuards (AuthGuard_canActivate v) second context req
                   = Inl (UnauthorizedException ''Token validation failed'')"
    if "token \<noteq> []" "CHR '' '' \<notin> set token"
      "authorization req = Some (''Bearer '' @ token)" "v token = None" for v
  proof -
    have "extractTokenFromHeader req = Some (takeWhile (\<lambda>c. c \<noteq> CHR '' '') token)"
      using that(3) by (rule extractTokenFromHeader_token)
    moreover have "takeWhile (\<lambda>c. c \<noteq> CHR '' '') token = token"
      using that(2) by (rule takeWhile_no_sep)
    ultimately have "AuthGuard_canActivate v context req
                       = Inl (UnauthorizedException ''Token validation failed'')"
      using AuthGuard_token [OF assms, of req token v] that(1,4) by simp
    then show ?thesis by (rule UseGuards_first_throws)
  qed
  have missing: "UseGuards (AuthGuard_canActivate validateToken) second context req
                   = Inl (UnauthorizedException ''Authentication token not found'')"
    if "authorization req = None
          \<or> (\<exists>h. authorization req = Some h \<and> takeWhile (\<lambda>c. c \<noteq> CHR '' '') h \<noteq> ''Bearer'')"
  proof -
    have "extractTokenFromHeader req = None"
      using that extractTokenFromHeader_absent extractTokenFromHeader_scheme by blast
    then have "AuthGuard_canActivate validateToken context req
                 = Inl (UnauthorizedException ''Authentication token not found'')"
      using AuthGuard_no_token [OF assms] by simp
    then show ?thesis by (rule UseGuards_first_throws)
  qed
  show ?thesis
    using missing unknown [of validateToken] unknown [of AuthGuard_validateToken]
      AuthGuard_validateToken_unknown [of token]
    by simp
qed

theorem authentication_failures_witness:
  "UseGuards (AuthGuard_canActivate AuthGuard_validateToken) PermissionsGuard_canActivate
      \<lparr>getHandler = no_metadata\<lparr>PERMISSIONS_KEY := Some [Permission_READ]\<rparr>,
       getClass = no_metadata\<rparr>
      \<lparr>authorization = None, user = None\<rparr>
     = Inl (UnauthorizedException ''Authentication token not found'')
   \<and> UseGuards (AuthGuard_canActivate AuthGuard_validateToken) PermissionsGuard_canActivate
      \<lparr>getHandler = no_metadata\<lparr>PERMISSIONS_KEY := Some [Permission_READ]\<rparr>,
       getClass = no_metadata\<rparr>
      \<lparr>authorization = Some ''Basic dXNlcjpwYXNz'', user = None\<rparr>
     = Inl (UnauthorizedException ''Authentication token not found'')
   \<and> UseGuards (AuthGuard_canActivate AuthGuard_validateToken) PermissionsGuard_canActivate
      \<lparr>getHandler = no_metadata\<lparr>PERMISSIONS_KEY := Some [Permission_READ]\<rparr>,
       getClass = no_metadata\<rparr>
      \<lparr>authorization = Some ''bearer token-read-only'', user = None\<rparr>
     = Inl (UnauthorizedException ''Authentication token not found'')
   \<and> UseGuards (AuthGuard_canActivate AuthGuard_validateToken) PermissionsGuard_canActivate
      \<lparr>getHandler = no_metadata\<lparr>PERMISSIONS_KEY := Some [Permission_READ]\<rparr>,
       getClass = no_metadata\<rparr>
      \<lparr>authorization = Some ''Bearer no-such-token'', user = None\<rparr>
     = Inl (UnauthorizedException ''Token validation failed'')"
  using
    authentication_failures [of
      "\<lparr>getHandler = no_metadata\<lparr>PERMISSIONS_KEY := Some [Permission_READ]\<rparr>,
        getClass = no_metadata\<rparr>"
      "\<lparr>authorization = None, user = None\<rparr>"
      AuthGuard_validateToken PermissionsGuard_canActivate "''no-such-token''" AuthService_new]
    authentication_failures [of
      "\<lparr>getHandler = no_metadata\<lparr>PERMISSIONS_KEY := Some [Permission_READ]\<rparr>,
        getClass = no_metadata\<rparr>"
      "\<lparr>authorization = Some ''Basic dXNlcjpwYXNz'', user = None\<rparr>"
      AuthGuard_validateToken PermissionsGuard_canActivate "''no-such-token''" AuthService_new]
    authentication_failures [of
      "\<lparr>getHandler = no_metadata\<lparr>PERMISSIONS_KEY := Some [Permission_READ]\<rparr>,
        getClass = no_metadata\<rparr>"
      "\<lparr>authorization = Some ''bearer token-read-only'', user = None\<rparr>"
      AuthGuard_validateToken PermissionsGuard_canActivate "''no-such-token''" AuthService_new]
    authentication_failures [of
      "\<lparr>getHandler = no_metadata\<lparr>PERMISSIONS_KEY := Some [Permission_READ]\<rparr>,
        getClass = no_metadata\<rparr>"
      "\<lparr>authorization = Some ''Bearer no-such-token'', user = None\<rparr>"
      AuthGuard_validateToken PermissionsGuard_canActivate "''no-such-token''" AuthService_new]
  by (simp add: no_metadata_def AuthService_new_def predefinedTokens_def)

section \<open>Public routes\<close>

text \<open>
  Claim C8, as stated: on every route marked public the guard chain succeeds. The
  authorization guards never read the public flag: they run after the authentication
  guard has let the request through without a user, and a public route that also
  carries a required list (here inherited from the controller class) is refused with
  the 403 \<open>User permissions not found\<close>.
\<close>

theorem public_route_with_requirement_counterexample:
  "UseGuards (AuthGuard_canActivate AuthGuard_validateToken) PermissionsGuard_canActivate
     \<lparr>getHandler = no_metadata\<lparr>IS_PUBLIC_KEY := Some True\<rparr>,
      getClass = no_metadata\<lparr>PERMISSIONS_KEY := Some [Permission_READ]\<rparr>\<rparr>
     \<lparr>authorization = None, user = None\<rparr>
   = Inl (ForbiddenException ''User permissions not found'')"
  by (simp add: UseGuards_def AuthGuard_canActivate_def PermissionsGuard_canActivate_def
        no_metadata_def Permission_READ_def)

text \<open>
  Claim C8, amended. On a route marked public the authentication guard returns \<open>true\<close>
  and the request it was given, for every request and every credential lookup:
  neither the header nor a credential store decides the outcome, and \<open>request.user\<close>
  is left as it was. When the route carries no required list, or an empty one (as every
  public route of the repository does), the whole chain succeeds with the request
  unchanged, in each of the three models.
\<close>

theorem public_route_bypass:
  assumes "getAllAndOverride IS_PUBLIC_KEY [getHandler context, getClass context] = Some True"
  shows "AuthGuard_canActivate validateToken context req = Inr (True, req)
       \<and> (getAllAndOverride ROLES_KEY [getHandler context, getClass context] = None
            \<or> getAllAndOverride ROLES_KEY [getHandler context, getClass context] = Some []
          \<longrightarrow> UseGuards (AuthGuard_canActivate validateToken) RolesGuard_canActivate
                context req = Inr (True, req))
       \<and> (getAllAndOverride PERMISSIONS_KEY [getHandler context, getClass context] = None
            \<or> getAllAndOverride PERMISSIONS_KEY [getHandler context, getClass context]
                = Some []
          \<longrightarrow> UseGuards (AuthGuard_canActivate validateToken) PermissionsGuard_canActivate
                context req = Inr (True, req))
       \<and> (getAllAndOverride MODULE_PERMISSIONS_KEY [getHandler context, getClass context]
              = None
            \<or> getAllAndOverride MODULE_PERMISSIONS_KEY [getHandler context, getClass context]
                = Some []
          \<longrightarrow> UseGuards (AuthGuard_canActivate validateToken)
                ModulePermissionsGuard_canActivate context req = Inr (True, req))"
  using AuthGuard_public [OF assms, of validateToken req]
    RolesGuard_no_requirement [of "context" req]
    PermissionsGuard_no_requirement [of "context" req]
    ModulePermissionsGuard_no_requirement [of "context" req]
  by (simp add: UseGuards_first_passes)

theorem public_route_bypass_witness:
  "AuthGuard_canActivate AuthGuard_validateToken
      \<lparr>getHandler = no_metadata\<lparr>IS_PUBLIC_KEY := Some True\<rparr>, getClass = no_metadata\<rparr>
      \<lparr>authorization = None, user = None\<rparr>
     = Inr (True, \<lparr>authorization = None, user = None\<rparr>)
   \<and> UseGuards (AuthGuard_canActivate AuthGuard_validateToken) RolesGuard_canActivate
      \<lparr>getHandler = no_metadata\<lparr>IS_PUBLIC_KEY := Some True\<rparr>, getClass = no_metadata\<rparr>
      \<lparr>authorization = None, user = None\<rparr>
     = Inr (True, \<lparr>authorization = None, user = None\<rparr>)
   \<and> UseGuards (AuthGuard_canActivate AuthGuard_validateToken) PermissionsGuard_canActivate
      \<lparr>getHandler = no_metadata\<lparr>IS_PUBLIC_KEY := Some True\<rparr>, getClass = no_metadata\<rparr>
      \<lparr>authorization = None, user = None\<rparr>
     = Inr (True, \<lparr>authorization = None, user = None\<rparr>)
   \<and> UseGuards (AuthGuard_canActivate AuthGuard_validateToken)
      ModulePermissionsGuard_canActivate
      \<lparr>getHandler = no_metadata\<lparr>IS_PUBLIC_KEY := Some True\<rparr>, getClass = no_metadata\<rparr>
      \<lparr>authorization = None, user = None\<rparr>
     = Inr (True, \<lparr>authorization = None, user = None\<rparr>)"
  using public_route_bypass [of
      "\<lparr>getHandler = no_metadata\<lparr>IS_PUBLIC_KEY := Some True\<rparr>, getClass = no_metadata\<rparr>"
      AuthGuard_validateToken "\<lparr>authorization = None, user = None\<rparr>"]
  by (simp add: no_metadata_def)

section \<open>Edge cases of the bearer header\<close>

text \<open>
  Claim C9. On a route that is not public, the token is the second of the segments the
  header splits into at its spaces. For a header \<open>Bearer t rest\<close>, with \<open>t\<close> not empty
  and free of spaces, the guard looks up exactly \<open>t\<close>, whatever follows it. The
  header \<open>Bearer\<close> alone, and a header whose second segment is empty (\<open>Bearer\<close> followed
  by one space and nothing, or by two spaces), is rejected with
  \<open>Authentication token not found\<close>, status 401, and nothing is looked up.
\<close>

theorem bearer_header_edge_cases:
  assumes "getAllAndOverride IS_PUBLIC_KEY [getHandler context, getClass context] \<noteq> Some True"
  shows "(token \<noteq> [] \<and> CHR '' '' \<notin> set token
            \<and> authorization req = Some (''Bearer '' @ token @ '' '' @ trailing)
          \<longrightarrow> extractTokenFromHeader req = Some token
              \<and> AuthGuard_canActivate validateToken context req
                 = (case validateToken token of
                      None \<Rightarrow> Inl (UnauthorizedException ''Token validation failed'')
                    | Some u \<Rightarrow> Inr (True, req\<lparr>user := Some u\<rparr>)))
       \<and> (authorization req = Some ''Bearer''
            \<or> authorization req = Some ''Bearer ''
            \<or> authorization req = Some (''Bearer  '' @ trailing)
          \<longrightarrow> AuthGuard_canActivate validateToken context req
                = Inl (UnauthorizedException ''Authentication token not found'')
              \<and> getStatus (UnauthorizedException ''Authentication token not found'') = 401)"
proof (intro conjI impI; (elim conjE)?)
  assume t: "token \<noteq> []" "CHR '' '' \<notin> set token"
    and h: "authorization req = Some (''Bearer '' @ token @ '' '' @ trailing)"
  have "takeWhile (\<lambda>c. c \<noteq> CHR '' '') (token @ '' '' @ trailing) = token"
    using takeWhile_until_sep [OF t(2), of trailing] by simp
  then show e: "extractTokenFromHeader req = Some token"
    using extractTokenFromHeader_token [OF h] by simp
  show "AuthGuard_canActivate validateToken context req
          = (case validateToken token of
               None \<Rightarrow> Inl (UnauthorizedException ''Token validation failed'')
             | Some u \<Rightarrow> Inr (True, req\<lparr>user := Some u\<rparr>))"
    using AuthGuard_token [OF assms e t(1)] .
next
  assume h: "authorization req = Some ''Bearer''
      \<or> authorization req = Some ''Bearer ''
      \<or> authorization req = Some (''Bearer  '' @ trailing)"
  have "extractTokenFromHeader req = None \<or> extractTokenFromHeader req = Some []"
    using h extractTokenFromHeader_only_scheme [of req]
      extractTokenFromHeader_token [of req "[]"]
      extractTokenFromHeader_token [of req "CHR '' '' # trailing"]
    by auto
  then show "AuthGuard_canActivate validateToken context req
               = Inl (UnauthorizedException ''Authentication token not found'')"
    by (rule AuthGuard_no_token [OF assms])
  show "getStatus (UnauthorizedException ''Authentication token not found'') = 401"
    by simp
qed

theorem bearer_header_edge_cases_witness:
  "AuthGuard_canActivate AuthGuard_validateToken
      \<lparr>getHandler = no_metadata, getClass = no_metadata\<rparr>
      \<lparr>authorization = Some ''Bearer token-read-only b'', user = None\<rparr>
     = Inr (True, \<lparr>authorization = Some ''Bearer token-read-only b'',
                   user = AuthGuard_validateToken ''token-read-only''\<rparr>)
   \<and> AuthGuard_canActivate AuthGuard_validateToken
      \<lparr>getHandler = no_metadata, getClass = no_metadata\<rparr>
      \<lparr>authorization = Some ''Bearer'', user = None\<rparr>
     = Inl (UnauthorizedException ''Authentication token not found'')
   \<and> AuthGuard_canActivate AuthGuard_validateToken
      \<lparr>getHandler = no_metadata, getClass = no_metadata\<rparr>
      \<lparr>authorization = Some ''Bearer '', user = None\<rparr>
     = Inl (UnauthorizedException ''Authentication token not found'')
   \<and> AuthGuard_canActivate AuthGuard_validateToken
      \<lparr>getHandler = no_metadata, getClass = no_metadata\<rparr>
      \<lparr>authorization = Some ''Bearer  token-read-only'', user = None\<rparr>
     = Inl (UnauthorizedException ''Authentication token not found'')"
  using
    bearer_header_edge_cases [of "\<lparr>getHandler = no_metadata, getClass = no_metadata\<rparr>"
      "''token-read-only''"
      "\<lparr>authorization = Some ''Bearer token-read-only b'', user = None\<rparr>" "''b''"
      AuthGuard_validateToken]
    bearer_header_edge_cases [of "\<lparr>getHandler = no_metadata, getClass = no_metadata\<rparr>"
      "''token-read-only''"
      "\<lparr>authorization = Some ''Bearer'', user = None\<rparr>" "''b''"
      AuthGuard_validateToken]
    bearer_header_edge_cases [of "\<lparr>getHandler = no_metadata, getClass = no_metadata\<rparr>"
      "''token-read-only''"
      "\<lparr>authorization = Some ''Bearer '', user = None\<rparr>" "''b''"
      AuthGuard_validateToken]
    bearer_header_edge_cases [of "\<lparr>getHandler = no_metadata, getClass = no_metadata\<rparr>"
      "''token-read-only''"
      "\<lparr>authorization = Some ''Bearer  token-read-only'', user = None\<rparr>"
      "''token-read-only''" AuthGuard_validateToken]
  by (simp add: no_metadata_def AuthGuard_validateToken_def AuthGuard_users_def)


section \<open>Token lookup in the credential stores\<close>

lemma validateToken_with_dynamic:
  "tokenMap this token = Some r \<Longrightarrow> validateToken_with table this token = TokenRecord r"
  by (simp add: validateToken_with_def)

lemma validateToken_with_static:
  "tokenMap this token = None \<Longrightarrow> map_of table token = Some r
     \<Longrightarrow> validateToken_with table this token = TokenRecord r"
  by (simp add: validateToken_with_def object_get_def)

lemma validateToken_with_inherited:
  "tokenMap this token = None \<Longrightarrow> map_of table token = None
     \<Longrightarrow> token \<in> set Object_prototype_keys
     \<Longrightarrow> validateToken_with table this token = PrototypeMember token"
  by (simp add: validateToken_with_def object_get_def)

lemma validateToken_with_unknown:
  "tokenMap this token = None \<Longrightarrow> map_of table token = None
     \<Longrightarrow> token \<notin> set Object_prototype_keys
     \<Longrightarrow> validateToken_with table this token = Null"
  by (simp add: validateToken_with_def object_get_def)

text \<open>
  Claim C5 says that \<open>validateToken\<close> returns \<open>null\<close> for every token that is in neither
  the token map nor the predefined table. The lookup order holds (see
  \<open>validateToken_with_dynamic\<close> and \<open>validateToken_with_static\<close>) and the method never
  throws, but the fallback \<open>predefinedTokens[token] || null\<close> indexes an object literal:
  for the token \<open>constructor\<close>, which neither store holds, it finds
  \<open>Object.prototype.constructor\<close>, a truthy function, and returns it instead of
  \<open>null\<close>. Both services behave so.
\<close>

theorem validateToken_constructor:
  "''constructor'' \<notin> dom (tokenMap AuthService_new)
   \<and> ''constructor'' \<notin> fst ` set predefinedTokens
   \<and> ''constructor'' \<notin> fst ` set predefinedTokens_ex3
   \<and> AuthService_validateToken AuthService_new ''constructor''
       = PrototypeMember ''constructor''
   \<and> AuthService_validateToken_ex3 AuthService_new ''constructor''
       = PrototypeMember ''constructor''
   \<and> AuthService_validateToken AuthService_new ''constructor'' \<noteq> Null"
  by (simp add: AuthService_validateToken_def AuthService_validateToken_ex3_def
        validateToken_with_def object_get_def AuthService_new_def predefinedTokens_def
        predefinedTokens_ex3_def Object_prototype_keys_def)

section \<open>Issuing tokens\<close>

lemma generateToken_calls_other_keys:
  "generateToken_calls calls this = (tokens, this') \<Longrightarrow> key \<notin> set tokens
     \<Longrightarrow> tokenMap this' key = tokenMap this key"
proof (induction calls arbitrary: this tokens this')
  case Nil
  then show ?case by simp
next
  case (Cons call calls)
  obtain now random name perms where call: "call = (now, random, name, perms)"
    by (cases call) auto
  obtain token mid where g: "AuthService_generateToken now random name perms this = (token, mid)"
    by (cases "AuthService_generateToken now random name perms this") auto
  obtain rest final where r: "generateToken_calls calls mid = (rest, final)"
    by (cases "generateToken_calls calls mid") auto
  from Cons.prems(1) call g r have eq: "tokens = token # rest" "this' = final"
    by auto
  with Cons.prems(2) have "key \<noteq> token" "key \<notin> set rest"
    by auto
  with Cons.IH [OF r] have "tokenMap final key = tokenMap mid key"
    by simp
  moreover from g \<open>key \<noteq> token\<close> have "tokenMap mid key = tokenMap this key"
    by (auto simp: AuthService_generateToken_def Let_def)
  ultimately show ?case using eq by simp
qed

lemma generateToken_calls_ex3_other_keys:
  "generateToken_calls_ex3 calls this = (tokens, this') \<Longrightarrow> key \<notin> set tokens
     \<Longrightarrow> tokenMap this' key = tokenMap this key"
proof (induction calls arbitrary: this tokens this')
  case Nil
  then show ?case by simp
next
  case (Cons call calls)
  obtain now random name role_name perms
    where call: "call = (now, random, name, role_name, perms)"
    by (cases call) auto
  obtain token mid
    where g: "AuthService_generateToken_ex3 now random name role_name perms this = (token, mid)"
    by (cases "AuthService_generateToken_ex3 now random name role_name perms this") auto
  obtain rest final where r: "generateToken_calls_ex3 calls mid = (rest, final)"
    by (cases "generateToken_calls_ex3 calls mid") auto
  from Cons.prems(1) call g r have eq: "tokens = token # rest" "this' = final"
    by auto
  with Cons.prems(2) have "key \<noteq> token" "key \<notin> set rest"
    by auto
  with Cons.IH [OF r] have "tokenMap final key = tokenMap mid key"
    by simp
  moreover from g \<open>key \<noteq> token\<close> have "tokenMap mid key = tokenMap this key"
    by (auto simp: AuthService_generateToken_ex3_def Let_def)
  ultimately show ?case using eq by simp
qed

lemma generateToken_stores:
  "AuthService_generateToken now random name perms this = (token, this')
     \<Longrightarrow> tokenMap this' token
         = Some (empty_object\<lparr>username := Some name, permissions := Some perms\<rparr>)"
  by (auto simp: AuthService_generateToken_def Let_def)

lemma generateToken_ex3_stores:
  "AuthService_generateToken_ex3 now random name role_name perms this = (token, this')
     \<Longrightarrow> tokenMap this' token
         = Some (empty_object\<lparr>username := Some name, role := Some role_name,
                   permissions := Some perms\<rparr>)"
  by (auto simp: AuthService_generateToken_ex3_def Let_def)

text \<open>
  Claim C10. A token returned by \<open>generateToken\<close> resolves, on the service the call
  left behind, to the record built from the call's arguments, and it still does after
  any run of further \<open>generateToken\<close> calls none of which returns the same string. A
  record in the token map is returned whatever the predefined table holds under the
  same key. This holds for the service of the permission example and for that of the
  module example.
\<close>

theorem issue_resolve_round_trip:
  "(AuthService_generateToken now random name perms this = (token, this')
      \<longrightarrow> AuthService_validateToken this' token
            = TokenRecord (empty_object\<lparr>username := Some name, permissions := Some perms\<rparr>)
        \<and> (generateToken_calls calls this' = (tokens, this'') \<and> token \<notin> set tokens
            \<longrightarrow> AuthService_validateToken this'' token
                  = TokenRecord (empty_object\<lparr>username := Some name,
                      permissions := Some perms\<rparr>)))
   \<and> (AuthService_generateToken_ex3 now random name role_name perms this = (token3, this3')
      \<longrightarrow> AuthService_validateToken_ex3 this3' token3
            = TokenRecord (empty_object\<lparr>username := Some name, role := Some role_name,
                permissions := Some perms\<rparr>)
        \<and> (generateToken_calls_ex3 calls3 this3' = (tokens3, this3'') \<and> token3 \<notin> set tokens3
            \<longrightarrow> AuthService_validateToken_ex3 this3'' token3
                  = TokenRecord (empty_object\<lparr>username := Some name, role := Some role_name,
                      permissions := Some perms\<rparr>)))
   \<and> (tokenMap service key = Some r
      \<longrightarrow> AuthService_validateToken service key = TokenRecord r
        \<and> AuthService_validateToken_ex3 service key = TokenRecord r)"
proof (intro conjI impI; (elim conjE)?)
  assume g: "AuthService_generateToken now random name perms this = (token, this')"
  show "AuthService_validateToken this' token
          = TokenRecord (empty_object\<lparr>username := Some name, permissions := Some perms\<rparr>)"
    unfolding AuthService_validateToken_def
    using generateToken_stores [OF g] by (rule validateToken_with_dynamic)
  assume "generateToken_calls calls this' = (tokens, this'')" and "token \<notin> set tokens"
  then have "tokenMap this'' token = tokenMap this' token"
    by (rule generateToken_calls_other_keys)
  then show "AuthService_validateToken this'' token
          = TokenRecord (empty_object\<lparr>username := Some name, permissions := Some perms\<rparr>)"
    unfolding AuthService_validateToken_def
    using generateToken_stores [OF g] by (simp add: validateToken_with_dynamic)
next
  assume g: "AuthService_generateToken_ex3 now random name role_name perms this
               = (token3, this3')"
  show "AuthService_validateToken_ex3 this3' token3
          = TokenRecord (empty_object\<lparr>username := Some name, role := Some role_name,
              permissions := Some perms\<rparr>)"
    unfolding AuthService_validateToken_ex3_def
    using generateToken_ex3_stores [OF g] by (rule validateToken_with_dynamic)
  assume "generateToken_calls_ex3 calls3 this3' = (tokens3, this3'')"
    and "token3 \<notin> set tokens3"
  then have "tokenMap this3'' token3 = tokenMap this3' token3"
    by (rule generateToken_calls_ex3_other_keys)
  then show "AuthService_validateToken_ex3 this3'' token3
          = TokenRecord (empty_object\<lparr>username := Some name, role := Some role_name,
              permissions := Some perms\<rparr>)"
    unfolding AuthService_validateToken_ex3_def
    using generateToken_ex3_stores [OF g] by (simp add: validateToken_with_dynamic)
next
  assume "tokenMap service key = Some r"
  then show "AuthService_validateToken service key = TokenRecord r"
    and "AuthService_validateToken_ex3 service key = TokenRecord r"
    by (simp_all add: AuthService_validateToken_def AuthService_validateToken_ex3_def
          validateToken_with_dynamic)
qed


lemma show_nat_examples:
  "show_nat 1730000000000 = ''1730000000000''"
  "show_nat 1730000000001 = ''1730000000001''"
  by (simp_all add: show_nat.simps)

theorem issue_resolve_round_trip_witness:
  "AuthService_validateToken
     (snd (AuthService_generateToken 1730000000000 ''k3j2x'' ''reader'' [Permission_READ]
             AuthService_new))
     ''token-reader-1730000000000-k3j2x''
     = TokenRecord (empty_object\<lparr>username := Some ''reader'',
         permissions := Some [Permission_READ]\<rparr>)
   \<and> AuthService_validateToken
     (snd (generateToken_calls
             [(1730000000001, ''k3j2x'', ''reader'', [Permission_READ]),
              (1730000000000, ''k3j2x'', ''creator'', [Permission_READ, Permission_CREATE])]
             (snd (AuthService_generateToken 1730000000000 ''k3j2x'' ''reader''
                     [Permission_READ] AuthService_new))))
     ''token-reader-1730000000000-k3j2x''
     = TokenRecord (empty_object\<lparr>username := Some ''reader'',
         permissions := Some [Permission_READ]\<rparr>)
   \<and> AuthService_validateToken_ex3
     (snd (AuthService_generateToken_ex3 1730000000000 ''k3j2x'' ''reader'' ''Read Only User''
             [Permission_READ] AuthService_new))
     ''token-reader-1730000000000-k3j2x''
     = TokenRecord (empty_object\<lparr>username := Some ''reader'', role := Some ''Read Only User'',
         permissions := Some [Permission_READ]\<rparr>)
   \<and> AuthService_validateToken
     \<lparr>tokenMap = [''token-read-only'' \<mapsto> empty_object\<lparr>username := Some ''other''\<rparr>]\<rparr>
     ''token-read-only''
     = TokenRecord (empty_object\<lparr>username := Some ''other''\<rparr>)"
  using issue_resolve_round_trip [of 1730000000000 "''k3j2x''" "''reader''" "[Permission_READ]"
      AuthService_new "''token-reader-1730000000000-k3j2x''"
      "snd (AuthService_generateToken 1730000000000 ''k3j2x'' ''reader'' [Permission_READ]
             AuthService_new)"
      "[(1730000000001, ''k3j2x'', ''reader'', [Permission_READ]),
        (1730000000000, ''k3j2x'', ''creator'', [Permission_READ, Permission_CREATE])]"
      "fst (generateToken_calls
             [(1730000000001, ''k3j2x'', ''reader'', [Permission_READ]),
              (1730000000000, ''k3j2x'', ''creator'', [Permission_READ, Permission_CREATE])]
             (snd (AuthService_generateToken 1730000000000 ''k3j2x'' ''reader''
                     [Permission_READ] AuthService_new)))"
      "snd (generateToken_calls
             [(1730000000001, ''k3j2x'', ''reader'', [Permission_READ]),
              (1730000000000, ''k3j2x'', ''creator'', [Permission_READ, Permission_CREATE])]
             (snd (AuthService_generateToken 1730000000000 ''k3j2x'' ''reader''
                     [Permission_READ] AuthService_new)))"
      "''Read Only User''" "''token-reader-1730000000000-k3j2x''"
      "snd (AuthService_generateToken_ex3 1730000000000 ''k3j2x'' ''reader'' ''Read Only User''
             [Permission_READ] AuthService_new)"
      "[]" "[]"
      "snd (AuthService_generateToken_ex3 1730000000000 ''k3j2x'' ''reader'' ''Read Only User''
             [Permission_READ] AuthService_new)"
      "\<lparr>tokenMap = [''token-read-only'' \<mapsto> empty_object\<lparr>username := Some ''other''\<rparr>]\<rparr>"
      "''token-read-only''" "empty_object\<lparr>username := Some ''other''\<rparr>"]
  by (simp add: AuthService_generateToken_def AuthService_generateToken_ex3_def
        show_nat_examples Let_def)


section \<open>Shape of issued tokens\<close>

lemma show_nat_digits:
  "show_nat n \<noteq> [] \<and> set (show_nat n) \<subseteq> set ''0123456789''"
proof (induction n rule: show_nat.induct)
  case (1 n)
  have digit: "''0123456789'' ! d \<in> set ''0123456789''" if "d < 10" for d
    using that by (intro nth_mem) simp
  show ?case
  proof (cases "n < 10")
    case True
    then show ?thesis
      using digit [of n] by (subst (1 2) show_nat.simps) simp
  next
    case False
    moreover have "n mod 10 < 10" by simp
    ultimately show ?thesis
      using "1.IH" digit [of "n mod 10"] by (subst (1 2) show_nat.simps) simp
  qed
qed

lemma issued_token_has_digit:
  "\<exists>c \<in> set (''token-'' @ name @ ''-'' @ show_nat now @ ''-'' @ random).
      c \<in> set ''0123456789''"
proof -
  obtain d where "d \<in> set (show_nat now)"
    using show_nat_digits [of now] by (cases "show_nat now") auto
  moreover from this have "d \<in> set ''0123456789''"
    using show_nat_digits [of now] by blast
  ultimately show ?thesis by auto
qed

lemma generateToken_has_digit:
  "AuthService_generateToken now random name perms this = (token, this')
     \<Longrightarrow> \<exists>c \<in> set token. c \<in> set ''0123456789''"
  using issued_token_has_digit [of name now random]
  by (auto simp: AuthService_generateToken_def Let_def)

lemma generateToken_ex3_has_digit:
  "AuthService_generateToken_ex3 now random name role_name perms this = (token, this')
     \<Longrightarrow> \<exists>c \<in> set token. c \<in> set ''0123456789''"
  using issued_token_has_digit [of name now random]
  by (auto simp: AuthService_generateToken_ex3_def Let_def)

lemma generateToken_calls_have_digit:
  "generateToken_calls calls this = (tokens, this')
     \<Longrightarrow> \<forall>token \<in> set tokens. \<exists>c \<in> set token. c \<in> set ''0123456789''"
proof (induction calls arbitrary: this tokens this')
  case Nil
  then show ?case by simp
next
  case (Cons call calls)
  obtain now random name perms where call: "call = (now, random, name, perms)"
    by (cases call) auto
  obtain token mid where g: "AuthService_generateToken now random name perms this = (token, mid)"
    by (cases "AuthService_generateToken now random name perms this") auto
  obtain rest final where r: "generateToken_calls calls mid = (rest, final)"
    by (cases "generateToken_calls calls mid") auto
  from Cons.prems call g r have "tokens = token # rest"
    by auto
  then show ?case
    using generateToken_has_digit [OF g] Cons.IH [OF r] by simp
qed

lemma generateToken_calls_ex3_have_digit:
  "generateToken_calls_ex3 calls this = (tokens, this')
     \<Longrightarrow> \<forall>token \<in> set tokens. \<exists>c \<in> set token. c \<in> set ''0123456789''"
proof (induction calls arbitrary: this tokens this')
  case Nil
  then show ?case by simp
next
  case (Cons call calls)
  obtain now random name role_name perms
    where call: "call = (now, random, name, role_name, perms)"
    by (cases call) auto
  obtain token mid
    where g: "AuthService_generateToken_ex3 now random name role_name perms this = (token, mid)"
    by (cases "AuthService_generateToken_ex3 now random name role_name perms this") auto
  obtain rest final where r: "generateToken_calls_ex3 calls mid = (rest, final)"
    by (cases "generateToken_calls_ex3 calls mid") auto
  from Cons.prems call g r have "tokens = token # rest"
    by auto
  then show ?case
    using generateToken_ex3_has_digit [OF g] Cons.IH [OF r] by simp
qed

lemma predefinedTokens_no_digit:
  "map_of predefinedTokens key = Some r \<Longrightarrow> \<forall>c \<in> set key. c \<notin> set ''0123456789''"
  by (auto simp: predefinedTokens_def split: if_splits)

lemma predefinedTokens_ex3_no_digit:
  "map_of predefinedTokens_ex3 key = Some r \<Longrightarrow> \<forall>c \<in> set key. c \<notin> set ''0123456789''"
  by (auto simp: predefinedTokens_ex3_def split: if_splits)

lemma Object_prototype_keys_no_digit:
  "key \<in> set Object_prototype_keys \<Longrightarrow> \<forall>c \<in> set key. c \<notin> set ''0123456789''"
  by (auto simp: Object_prototype_keys_def)

lemma digit_token_unknown:
  assumes "\<exists>c \<in> set token. c \<in> set ''0123456789''"
  shows "validateToken_with predefinedTokens AuthService_new token = Null"
    and "validateToken_with predefinedTokens_ex3 AuthService_new token = Null"
proof -
  have "map_of predefinedTokens token = None"
    using assms predefinedTokens_no_digit [of token] by (cases "map_of predefinedTokens token") auto
  moreover have "map_of predefinedTokens_ex3 token = None"
    using assms predefinedTokens_ex3_no_digit [of token]
    by (cases "map_of predefinedTokens_ex3 token") auto
  moreover have "token \<notin> set Object_prototype_keys"
    using assms Object_prototype_keys_no_digit [of token] by auto
  ultimately show "validateToken_with predefinedTokens AuthService_new token = Null"
    and "validateToken_with predefinedTokens_ex3 AuthService_new token = Null"
    by (simp_all add: validateToken_with_unknown AuthService_new_def)
qed

lemma generateToken_calls_keeps_keys:
  "generateToken_calls calls this = (tokens, this') \<Longrightarrow> tokenMap this key = Some r
     \<Longrightarrow> \<exists>r'. tokenMap this' key = Some r'"
proof (induction calls arbitrary: this tokens this' r)
  case Nil
  then show ?case by simp
next
  case (Cons call calls)
  obtain now random name perms where call: "call = (now, random, name, perms)"
    by (cases call) auto
  obtain token mid where g: "AuthService_generateToken now random name perms this = (token, mid)"
    by (cases "AuthService_generateToken now random name perms this") auto
  obtain rest where r: "generateToken_calls calls mid = (rest, this')"
    using Cons.prems(1) call g by (cases "generateToken_calls calls mid") auto
  from g Cons.prems(2) have "\<exists>r0. tokenMap mid key = Some r0"
    by (auto simp: AuthService_generateToken_def Let_def)
  then obtain r0 where "tokenMap mid key = Some r0"
    by blast
  then show ?case by (rule Cons.IH [OF r])
qed

lemma generateToken_calls_ex3_keeps_keys:
  "generateToken_calls_ex3 calls this = (tokens, this') \<Longrightarrow> tokenMap this key = Some r
     \<Longrightarrow> \<exists>r'. tokenMap this' key = Some r'"
proof (induction calls arbitrary: this tokens this' r)
  case Nil
  then show ?case by simp
next
  case (Cons call calls)
  obtain now random name role_name perms
    where call: "call = (now, random, name, role_name, perms)"
    by (cases call) auto
  obtain token mid
    where g: "AuthService_generateToken_ex3 now random name role_name perms this = (token, mid)"
    by (cases "AuthService_generateToken_ex3 now random name role_name perms this") auto
  obtain rest where r: "generateToken_calls_ex3 calls mid = (rest, this')"
    using Cons.prems(1) call g by (cases "generateToken_calls_ex3 calls mid") auto
  from g Cons.prems(2) have "\<exists>r0. tokenMap mid key = Some r0"
    by (auto simp: AuthService_generateToken_ex3_def Let_def)
  then obtain r0 where "tokenMap mid key = Some r0"
    by blast
  then show ?case by (rule Cons.IH [OF r])
qed

lemma predefined_survives:
  assumes "generateToken_calls calls AuthService_new = (tokens, this)"
    and "map_of predefinedTokens key = Some r"
  shows "AuthService_validateToken this key = TokenRecord r"
proof -
  have "key \<notin> set tokens"
    using generateToken_calls_have_digit [OF assms(1)] predefinedTokens_no_digit [OF assms(2)]
    by blast
  then have "tokenMap this key = None"
    using generateToken_calls_other_keys [OF assms(1)] by (simp add: AuthService_new_def)
  then show ?thesis
    using assms(2) by (simp add: AuthService_validateToken_def validateToken_with_static)
qed

lemma predefined_ex3_survives:
  assumes "generateToken_calls_ex3 calls AuthService_new = (tokens, this)"
    and "map_of predefinedTokens_ex3 key = Some r"
  shows "AuthService_validateToken_ex3 this key = TokenRecord r"
proof -
  have "key \<notin> set tokens"
    using generateToken_calls_ex3_have_digit [OF assms(1)]
      predefinedTokens_ex3_no_digit [OF assms(2)]
    by blast
  then have "tokenMap this key = None"
    using generateToken_calls_ex3_other_keys [OF assms(1)] by (simp add: AuthService_new_def)
  then show ?thesis
    using assms(2) by (simp add: AuthService_validateToken_ex3_def validateToken_with_static)
qed

lemma JwtAuthService_round_trip:
  "JwtAuthService_verifyToken now' (JwtAuthService_generateToken now u) =
     (if now' < now + 24 * 60 * 60
      then Some (empty_object\<lparr>user_id := user_id u, username := username u,
                   email := email u, roles := roles u\<rparr>)
      else None)"
  by (simp add: JwtAuthService_verifyToken_def JwtAuthService_generateToken_def
        jwtService_verifyAsync_def jwtService_sign_def JwtModule_expiresIn_def
        empty_object_def)


section \<open>Lifetime of tokens\<close>

text \<open>
  Claim C6, as stated: in all three variants a token stays resolvable at any later
  time of the process. The role example registers its JWT module with
  \<open>expiresIn: '24h'\<close>: the token issued to \<open>reader\<close> resolves one second before its
  24 hours are over and no longer resolves when they are.
\<close>

theorem jwt_expiry_counterexample:
  "JwtAuthService_verifyToken (1730000000 + 86399)
     (JwtAuthService_generateToken 1730000000
        (empty_object\<lparr>user_id := Some ''4'', username := Some ''reader'',
           email := Some ''reader@example.com'', roles := Some [Role_READ]\<rparr>))
     = Some (empty_object\<lparr>user_id := Some ''4'', username := Some ''reader'',
         email := Some ''reader@example.com'', roles := Some [Role_READ]\<rparr>)
   \<and> JwtAuthService_verifyToken (1730000000 + 86400)
     (JwtAuthService_generateToken 1730000000
        (empty_object\<lparr>user_id := Some ''4'', username := Some ''reader'',
           email := Some ''reader@example.com'', roles := Some [Role_READ]\<rparr>))
     = None"
  by (simp add: JwtAuthService_verifyToken_def JwtAuthService_generateToken_def
        jwtService_verifyAsync_def jwtService_sign_def JwtModule_expiresIn_def
        empty_object_def)

text \<open>
  Claim C6, amended. In the permission and the module example nothing expires, revokes
  or evicts a token: after any run of further \<open>generateToken\<close> calls a token issued
  earlier still resolves to a record, the one stored when it was issued unless a later
  call returned the same string, and on a service started empty every predefined token
  resolves to its predefined record. A service started anew resolves no token issued
  before to a record. In the role example a token resolves to the user data it was
  issued for exactly while fewer than 24 hours (86400 seconds) have passed since it
  was issued.
\<close>

theorem token_lifetime:
  "(AuthService_generateToken now random name perms this = (token, this')
      \<longrightarrow> AuthService_validateToken AuthService_new token = Null
        \<and> (generateToken_calls calls this' = (tokens, this'')
            \<longrightarrow> (\<exists>r. AuthService_validateToken this'' token = TokenRecord r)
              \<and> (token \<notin> set tokens
                  \<longrightarrow> AuthService_validateToken this'' token
                        = TokenRecord (empty_object\<lparr>username := Some name,
                            permissions := Some perms\<rparr>))))
   \<and> (generateToken_calls calls0 AuthService_new = (tokens0, service)
        \<and> map_of predefinedTokens key = Some r
      \<longrightarrow> AuthService_validateToken service key = TokenRecord r)
   \<and> (AuthService_generateToken_ex3 now random name role_name perms this = (token3, this3')
      \<longrightarrow> AuthService_validateToken_ex3 AuthService_new token3 = Null
        \<and> (generateToken_calls_ex3 calls3 this3' = (tokens3, this3'')
            \<longrightarrow> (\<exists>r. AuthService_validateToken_ex3 this3'' token3 = TokenRecord r)
              \<and> (token3 \<notin> set tokens3
                  \<longrightarrow> AuthService_validateToken_ex3 this3'' token3
                        = TokenRecord (empty_object\<lparr>username := Some name,
                            role := Some role_name, permissions := Some perms\<rparr>))))
   \<and> (generateToken_calls_ex3 calls3' AuthService_new = (tokens3', service3)
        \<and> map_of predefinedTokens_ex3 key3 = Some r3
      \<longrightarrow> AuthService_validateToken_ex3 service3 key3 = TokenRecord r3)
   \<and> JwtAuthService_verifyToken later (JwtAuthService_generateToken issued u)
       = (if later < issued + 24 * 60 * 60
          then Some (empty_object\<lparr>user_id := user_id u, username := username u,
                       email := email u, roles := roles u\<rparr>)
          else None)"
proof (intro conjI impI; (elim conjE)?)
  assume g: "AuthService_generateToken now random name perms this = (token, this')"
  show "AuthService_validateToken AuthService_new token = Null"
    unfolding AuthService_validateToken_def
    using generateToken_has_digit [OF g] by (rule digit_token_unknown)
  assume c: "generateToken_calls calls this' = (tokens, this'')"
  obtain r' where "tokenMap this'' token = Some r'"
    using generateToken_calls_keeps_keys [OF c generateToken_stores [OF g]] by blast
  then show "\<exists>r. AuthService_validateToken this'' token = TokenRecord r"
    by (auto simp: AuthService_validateToken_def validateToken_with_dynamic)
  assume "token \<notin> set tokens"
  then show "AuthService_validateToken this'' token
               = TokenRecord (empty_object\<lparr>username := Some name, permissions := Some perms\<rparr>)"
    using generateToken_calls_other_keys [OF c, of token] generateToken_stores [OF g]
    by (simp add: AuthService_validateToken_def validateToken_with_dynamic)
next
  assume "generateToken_calls calls0 AuthService_new = (tokens0, service)"
    and "map_of predefinedTokens key = Some r"
  then show "AuthService_validateToken service key = TokenRecord r"
    by (rule predefined_survives)
next
  assume g: "AuthService_generateToken_ex3 now random name role_name perms this
               = (token3, this3')"
  show "AuthService_validateToken_ex3 AuthService_new token3 = Null"
    unfolding AuthService_validateToken_ex3_def
    using generateToken_ex3_has_digit [OF g] by (rule digit_token_unknown)
  assume c: "generateToken_calls_ex3 calls3 this3' = (tokens3, this3'')"
  obtain r' where "tokenMap this3'' token3 = Some r'"
    using generateToken_calls_ex3_keeps_keys [OF c generateToken_ex3_stores [OF g]] by blast
  then show "\<exists>r. AuthService_validateToken_ex3 this3'' token3 = TokenRecord r"
    by (auto simp: AuthService_validateToken_ex3_def validateToken_with_dynamic)
  assume "token3 \<notin> set tokens3"
  then show "AuthService_validateToken_ex3 this3'' token3
               = TokenRecord (empty_object\<lparr>username := Some name, role := Some role_name,
                   permissions := Some perms\<rparr>)"
    using generateToken_calls_ex3_other_keys [OF c, of token3] generateToken_ex3_stores [OF g]
    by (simp add: AuthService_validateToken_ex3_def validateToken_with_dynamic)
next
  assume "generateToken_calls_ex3 calls3' AuthService_new = (tokens3', service3)"
    and "map_of predefinedTokens_ex3 key3 = Some r3"
  then show "AuthService_validateToken_ex3 service3 key3 = TokenRecord r3"
    by (rule predefined_ex3_survives)
next
  show "JwtAuthService_verifyToken later (JwtAuthService_generateToken issued u)
       = (if later < issued + 24 * 60 * 60
          then Some (empty_object\<lparr>user_id := user_id u, username := username u,
                       email := email u, roles := roles u\<rparr>)
          else None)"
    by (rule JwtAuthService_round_trip)
qed


theorem token_lifetime_witness:
  "AuthService_validateToken AuthService_new ''token-reader-1730000000000-k3j2x'' = Null
   \<and> AuthService_validateToken
     (snd (generateToken_calls
             [(1730000000001, ''k3j2x'', ''reader'', [Permission_READ])]
             (snd (AuthService_generateToken 1730000000000 ''k3j2x'' ''reader''
                     [Permission_READ] AuthService_new))))
     ''token-reader-1730000000000-k3j2x''
     = TokenRecord (empty_object\<lparr>username := Some ''reader'',
         permissions := Some [Permission_READ]\<rparr>)
   \<and> AuthService_validateToken
     (snd (generateToken_calls
             [(1730000000001, ''k3j2x'', ''reader'', [Permission_READ])] AuthService_new))
     ''token-read-only''
     = TokenRecord (empty_object\<lparr>username := Some ''reader'',
         permissions := Some [Permission_READ]\<rparr>)
   \<and> AuthService_validateToken_ex3 AuthService_new ''token-readonly-1730000000000-k3j2x''
     = Null
   \<and> AuthService_validateToken_ex3
     (snd (generateToken_calls_ex3
             [(1730000000001, ''k3j2x'', ''readonly'', ''Read Only User'', [USERS_LIST])]
             (snd (AuthService_generateToken_ex3 1730000000000 ''k3j2x'' ''readonly''
                     ''Read Only User'' [USERS_LIST] AuthService_new))))
     ''token-readonly-1730000000000-k3j2x''
     = TokenRecord (empty_object\<lparr>username := Some ''readonly'',
         role := Some ''Read Only User'', permissions := Some [USERS_LIST]\<rparr>)
   \<and> AuthService_validateToken_ex3
     (snd (generateToken_calls_ex3
             [(1730000000001, ''k3j2x'', ''readonly'', ''Read Only User'', [USERS_LIST])]
             AuthService_new))
     ''token-readonly''
     = TokenRecord (empty_object\<lparr>username := Some ''readonly'',
         role := Some ''Read Only User'',
         permissions := Some [USERS_LIST, USERS_READ, POSTS_LIST, POSTS_READ,
           PRODUCTS_LIST, PRODUCTS_READ, ORDERS_LIST, ORDERS_READ]\<rparr>)
   \<and> JwtAuthService_verifyToken 1730003600
     (JwtAuthService_generateToken 1730000000 (empty_object\<lparr>roles := Some [Role_READ]\<rparr>))
     = Some (empty_object\<lparr>roles := Some [Role_READ]\<rparr>)"
  using token_lifetime [where now = 1730000000000 and random = "''k3j2x''"
      and name = "''reader''" and perms = "[Permission_READ]" and this = AuthService_new
      and token = "''token-reader-1730000000000-k3j2x''"
      and this' = "snd (AuthService_generateToken 1730000000000 ''k3j2x'' ''reader''
                     [Permission_READ] AuthService_new)"
      and calls = "[(1730000000001, ''k3j2x'', ''reader'', [Permission_READ])]"
      and tokens = "[''token-reader-1730000000001-k3j2x'']"
      and this'' = "snd (generateToken_calls
             [(1730000000001, ''k3j2x'', ''reader'', [Permission_READ])]
             (snd (AuthService_generateToken 1730000000000 ''k3j2x'' ''reader''
                     [Permission_READ] AuthService_new)))"
      and ?calls0.0 = "[(1730000000001, ''k3j2x'', ''reader'', [Permission_READ])]"
      and ?tokens0.0 = "[''token-reader-1730000000001-k3j2x'']"
      and service = "snd (generateToken_calls
             [(1730000000001, ''k3j2x'', ''reader'', [Permission_READ])] AuthService_new)"
      and key = "''token-read-only''"
      and r = "empty_object\<lparr>username := Some ''reader'',
         permissions := Some [Permission_READ]\<rparr>"
      and role_name = "''Read Only User''"
      and ?token3.0 = "''token-reader-1730000000000-k3j2x''"
      and this3' = "snd (AuthService_generateToken_ex3 1730000000000 ''k3j2x'' ''reader''
                     ''Read Only User'' [Permission_READ] AuthService_new)"
      and ?calls3.0 = "[]" and ?tokens3.0 = "[]"
      and this3'' = "snd (AuthService_generateToken_ex3 1730000000000 ''k3j2x'' ''reader''
                     ''Read Only User'' [Permission_READ] AuthService_new)"
      and calls3' = "[]" and tokens3' = "[]" and ?service3.0 = AuthService_new
      and ?key3.0 = "''token-readonly''"
      and ?r3.0 = "empty_object\<lparr>username := Some ''readonly'',
         role := Some ''Read Only User'',
         permissions := Some [USERS_LIST, USERS_READ, POSTS_LIST, POSTS_READ,
           PRODUCTS_LIST, PRODUCTS_READ, ORDERS_LIST, ORDERS_READ]\<rparr>"
      and later = 1730003600 and issued = 1730000000
      and u = "empty_object\<lparr>roles := Some [Role_READ]\<rparr>"]
    token_lifetime [where now = 1730000000000 and random = "''k3j2x''"
      and name = "''readonly''" and perms = "[USERS_LIST]" and this = AuthService_new
      and token = "''token-readonly-1730000000000-k3j2x''"
      and this' = "snd (AuthService_generateToken 1730000000000 ''k3j2x'' ''readonly''
                     [USERS_LIST] AuthService_new)"
      and calls = "[]" and tokens = "[]"
      and this'' = "snd (AuthService_generateToken 1730000000000 ''k3j2x'' ''readonly''
                     [USERS_LIST] AuthService_new)"
      and ?calls0.0 = "[]" and ?tokens0.0 = "[]" and service = AuthService_new
      and key = "''token-read-only''"
      and r = "empty_object\<lparr>username := Some ''reader'',
         permissions := Some [Permission_READ]\<rparr>"
      and role_name = "''Read Only User''"
      and ?token3.0 = "''token-readonly-1730000000000-k3j2x''"
      and this3' = "snd (AuthService_generateToken_ex3 1730000000000 ''k3j2x'' ''readonly''
                     ''Read Only User'' [USERS_LIST] AuthService_new)"
      and ?calls3.0 = "[(1730000000001, ''k3j2x'', ''readonly'', ''Read Only User'',
                         [USERS_LIST])]"
      and ?tokens3.0 = "[''token-readonly-1730000000001-k3j2x'']"
      and this3'' = "snd (generateToken_calls_ex3
             [(1730000000001, ''k3j2x'', ''readonly'', ''Read Only User'', [USERS_LIST])]
             (snd (AuthService_generateToken_ex3 1730000000000 ''k3j2x'' ''readonly''
                     ''Read Only User'' [USERS_LIST] AuthService_new)))"
      and calls3' = "[(1730000000001, ''k3j2x'', ''readonly'', ''Read Only User'',
                         [USERS_LIST])]"
      and tokens3' = "[''token-readonly-1730000000001-k3j2x'']"
      and ?service3.0 = "snd (generateToken_calls_ex3
             [(1730000000001, ''k3j2x'', ''readonly'', ''Read Only User'', [USERS_LIST])]
             AuthService_new)"
      and ?key3.0 = "''token-readonly''"
      and ?r3.0 = "empty_object\<lparr>username := Some ''readonly'',
         role := Some ''Read Only User'',
         permissions := Some [USERS_LIST, USERS_READ, POSTS_LIST, POSTS_READ,
           PRODUCTS_LIST, PRODUCTS_READ, ORDERS_LIST, ORDERS_READ]\<rparr>"
      and later = 1730003600 and issued = 1730000000
      and u = "empty_object\<lparr>roles := Some [Role_READ]\<rparr>"]
  by (simp add: AuthService_generateToken_def AuthService_generateToken_ex3_def
        show_nat_examples Let_def predefinedTokens_def predefinedTokens_ex3_def
        empty_object_def)


section \<open>Login\<close>

lemma JwtAuthService_validateUser_reader:
  "JwtAuthService_validateUser ''reader'' pw
     = Some (empty_object\<lparr>user_id := Some ''4'', username := Some ''reader'',
         email := Some ''reader@example.com'', roles := Some [Role_READ]\<rparr>)"
  by (simp add: JwtAuthService_validateUser_def JwtAuthService_users_def empty_object_def)

lemma AuthService_validateUser_reader:
  "AuthService_validateUser ''reader'' pw
     = (if pw = ''password123''
        then Some (empty_object\<lparr>username := Some ''reader'', password := Some ''password123'',
               permissions := Some [Permission_READ]\<rparr>)
        else None)"
  by (simp add: AuthService_validateUser_def AuthService_users_def empty_object_def)

text \<open>
  Claim C7. \<open>validateUser\<close> returns the first directory entry whose username equals the
  one given, and nothing when there is none. The role example's service does not look
  at the password, so there a login as \<open>reader\<close> succeeds with any password, and the
  token it returns resolves, while it has not expired, to the user \<open>reader\<close> with the
  roles \<open>[read]\<close>. The service of the permission example also requires the entry's
  password: a login as \<open>reader\<close> with \<open>password123\<close> returns a token that resolves to
  the permissions \<open>[read]\<close>, and with any other password it is refused.
\<close>

theorem login_validation:
  "JwtAuthService_validateUser name pw = JwtAuthService_validateUser name pw'
   \<and> (JwtAuthService_validateUser name pw = None
        \<longleftrightarrow> (\<forall>entry \<in> set JwtAuthService_users. username entry \<noteq> Some name))
   \<and> (JwtAuthService_validateUser name pw = Some entry
        \<longrightarrow> entry \<in> set JwtAuthService_users \<and> username entry = Some name)
   \<and> (AuthService_validateUser name pw = Some entry
        \<longrightarrow> entry \<in> set AuthService_users \<and> username entry = Some name
            \<and> password entry = Some pw)
   \<and> (\<exists>response. UsersController_login now ''reader'' pw = Inr response
        \<and> response_message response = ''Login successful''
        \<and> (later < now + 24 * 60 * 60
            \<longrightarrow> (\<exists>resolved. JwtAuthService_verifyToken later (response_token response)
                               = Some resolved
                  \<and> username resolved = Some ''reader''
                  \<and> roles resolved = Some [Role_READ])))
   \<and> (\<exists>response authService'.
          AuthController_login now random ''reader'' ''password123'' authService
            = Inr (response, authService')
        \<and> (\<exists>resolved. AuthService_validateToken authService' (response_token response)
                          = TokenRecord resolved
              \<and> username resolved = Some ''reader''
              \<and> permissions resolved = Some [Permission_READ]))
   \<and> (pw \<noteq> ''password123''
        \<longrightarrow> AuthController_login now random ''reader'' pw authService
              = Inl (UnauthorizedException ''Invalid username or password''))"
proof (intro conjI)
  show "JwtAuthService_validateUser name pw = JwtAuthService_validateUser name pw'"
    by (simp add: JwtAuthService_validateUser_def)
  show "JwtAuthService_validateUser name pw = None
        \<longleftrightarrow> (\<forall>entry \<in> set JwtAuthService_users. username entry \<noteq> Some name)"
    unfolding JwtAuthService_validateUser_def by (auto simp: find_None_iff)
  show "JwtAuthService_validateUser name pw = Some entry
        \<longrightarrow> entry \<in> set JwtAuthService_users \<and> username entry = Some name"
    unfolding JwtAuthService_validateUser_def by (auto simp: find_Some_iff)
  show "AuthService_validateUser name pw = Some entry
        \<longrightarrow> entry \<in> set AuthService_users \<and> username entry = Some name
            \<and> password entry = Some pw"
    unfolding AuthService_validateUser_def by (auto simp: find_Some_iff)
  show "\<exists>response. UsersController_login now ''reader'' pw = Inr response
        \<and> response_message response = ''Login successful''
        \<and> (later < now + 24 * 60 * 60
            \<longrightarrow> (\<exists>resolved. JwtAuthService_verifyToken later (response_token response)
                               = Some resolved
                  \<and> username resolved = Some ''reader''
                  \<and> roles resolved = Some [Role_READ]))"
    by (simp add: UsersController_login_def JwtAuthService_validateUser_reader
          JwtAuthService_round_trip empty_object_def)
  show "\<exists>response authService'.
          AuthController_login now random ''reader'' ''password123'' authService
            = Inr (response, authService')
        \<and> (\<exists>resolved. AuthService_validateToken authService' (response_token response)
                          = TokenRecord resolved
              \<and> username resolved = Some ''reader''
              \<and> permissions resolved = Some [Permission_READ])"
    by (simp add: AuthController_login_def AuthService_validateUser_reader
          AuthService_generateToken_def AuthService_validateToken_def
          validateToken_with_def empty_object_def Let_def)
  show "pw \<noteq> ''password123''
        \<longrightarrow> AuthController_login now random ''reader'' pw authService
              = Inl (UnauthorizedException ''Invalid username or password'')"
    by (simp add: AuthController_login_def AuthService_validateUser_reader)
qed

theorem login_validation_witness:
  "JwtAuthService_validateUser ''reader'' ''anything''
     = JwtAuthService_validateUser ''reader'' ''password123''
   \<and> JwtAuthService_validateUser ''Reader'' ''password123'' = None
   \<and> (\<exists>response. UsersController_login 1730000000 ''reader'' ''anything'' = Inr response
        \<and> (\<exists>resolved. JwtAuthService_verifyToken 1730003600 (response_token response)
                          = Some resolved
              \<and> roles resolved = Some [Role_READ]))
   \<and> AuthController_login 1730000000 ''k3j2x'' ''reader'' ''anything'' AuthService_new
       = Inl (UnauthorizedException ''Invalid username or password'')"
  using
    login_validation [of "''reader''" "''anything''" "''password123''"
      "empty_object\<lparr>user_id := Some ''4'', username := Some ''reader'',
         email := Some ''reader@example.com'', roles := Some [Role_READ]\<rparr>"
      1730000000 1730003600 "''k3j2x''" AuthService_new]
    login_validation [of "''Reader''" "''password123''" "''password123''"
      "empty_object\<lparr>user_id := Some ''4'', username := Some ''reader'',
         email := Some ''reader@example.com'', roles := Some [Role_READ]\<rparr>"
      1730000000 1730003600 "''k3j2x''" AuthService_new]
  by (simp add: JwtAuthService_users_def empty_object_def) blast

end
